theory Spec2Isabelle
  imports Complex_Main "HOL-Library.Word" "HOL-Library.Log_Nat"
begin

section \<open>The Gazebo side of the ArduPilot SITL plugin\<close>

text \<open>
  A shallow embedding of \<^verbatim>\<open>apm_plugin_gazebo_side.cpp\<close>. The C++ object
  \<^verbatim>\<open>ArdupilotSitlGazeboPlugin\<close> becomes a record that every method takes and
  returns. Shared pointers that may be null are options, and dereferencing a null one
  is the error \<open>NullPointer\<close>; \<^verbatim>\<open>gzthrow\<close> is the error \<open>GzThrow\<close> with
  its message. A \<^verbatim>\<open>double\<close> is modelled as the real number it denotes. Where the
  code only stores or copies a value, that is all there is to it; where it computes with
  doubles, in the conversion of the clock to seconds, the result of each operation is
  rounded as IEEE 754 binary64 arithmetic rounds it.
\<close>

subsection \<open>Values and errors\<close>

type_synonym double = real
type_synonym int32 = "32 word"

datatype error =
    GzThrow string
  | NullPointer

text \<open>
  The result of a double operation: the exact result rounded to 53 significant bits, to
  the nearest and to the even neighbour on a tie. \<open>floor_log2 x\<close> is the exponent of
  the leading bit of a positive \<open>x\<close>. The range of the exponent is not modelled: the
  numbers rounded in this file lie between \<^verbatim>\<open>2^-90\<close> and \<^verbatim>\<open>2^32\<close> in size, where
  a double has neither overflow nor subnormals.
\<close>

definition floor_log2 :: "real \<Rightarrow> int" where
  "floor_log2 x = (if 1 \<le> x then bitlen \<lfloor>x\<rfloor> - 1 else - bitlen (\<lceil>1 / x\<rceil> - 1))"

definition round_ties_even :: "real \<Rightarrow> int" where
  "round_ties_even x =
     (let f = \<lfloor>x\<rfloor>; d = x - of_int f in
      if d < 1 / 2 then f else if 1 / 2 < d then f + 1 else if even f then f else f + 1)"

definition round_double :: "real \<Rightarrow> double" where
  "round_double x =
     (if x = 0 then 0
      else let e = floor_log2 \<bar>x\<bar> - 52 in
           of_int (round_ties_even (x / 2 powi e)) * 2 powi e)"

text \<open>
  One entry per \<^verbatim>\<open>ROS_INFO\<close> call: the format string and its argument. The
  \<open>PLUGIN_INFO\<close> entries are the calls whose format string starts with the macro
  \<^verbatim>\<open>PLUGIN_LOG_PREPEND\<close>, which the header defines.
\<close>

datatype log_entry =
    ROS_INFO string
  | ROS_INFO_s string string
  | ROS_INFO_d string int32
  | PLUGIN_INFO string
  | PLUGIN_INFO_f string double

subsection \<open>The part of Gazebo the plugin talks to\<close>

datatype EntityType = BOX_SHAPE | CYLINDER_SHAPE | PLANE_SHAPE | SPHERE_SHAPE | MESH_SHAPE

datatype shape =
    BoxShape
  | CylinderShape (GetRadius: double) (GetLength: double)
  | PlaneShape
  | SphereShape (GetRadius: double)
  | MeshShape

fun shape_type :: "shape \<Rightarrow> EntityType" where
  "shape_type BoxShape = BOX_SHAPE"
| "shape_type (CylinderShape r l) = CYLINDER_SHAPE"
| "shape_type PlaneShape = PLANE_SHAPE"
| "shape_type (SphereShape r) = SPHERE_SHAPE"
| "shape_type MeshShape = MESH_SHAPE"

definition HasType :: "shape \<Rightarrow> EntityType \<Rightarrow> bool" where
  "HasType sh t = (shape_type sh = t)"

record collision =
  GetShape :: "shape option"

record link =
  GetCollision :: "nat \<Rightarrow> collision option"

record joint =
  GetHighStop :: "nat \<Rightarrow> double"
  GetLowStop :: "nat \<Rightarrow> double"
  GetParam :: "string \<Rightarrow> nat \<Rightarrow> double"
  GetChild :: "link option"

text \<open>A model hands out its joints by name, as addresses into the world's joints.\<close>

record model =
  GetJoint :: "string \<Rightarrow> nat option"

record Time =
  sec :: int32
  nsec :: int32

record world =
  GetName :: string
  IsPaused :: bool
  GetIterations :: nat
  GetSimTime :: Time
  GetMaxStepSize :: double
  GetModel :: "string \<Rightarrow> model option"
  joints :: "nat \<Rightarrow> joint"

text \<open>
  Gazebo's own operations on a world and on a joint. \<open>Step\<close> runs the requested
  number of iterations, pausing the world first if it is running; the setters of a joint
  store their argument at the given axis index.
\<close>

definition SetPaused :: "bool \<Rightarrow> world \<Rightarrow> world" where
  "SetPaused p w = w\<lparr>IsPaused := p\<rparr>"

definition Step :: "nat \<Rightarrow> world \<Rightarrow> world" where
  "Step n w = (SetPaused True w)\<lparr>GetIterations := GetIterations w + n\<rparr>"

definition SetHighStop :: "nat \<Rightarrow> double \<Rightarrow> nat \<Rightarrow> world \<Rightarrow> world" where
  "SetHighStop i a j w =
     w\<lparr>joints := (joints w)
        (j := (joints w j)\<lparr>GetHighStop := (GetHighStop (joints w j))(i := a)\<rparr>)\<rparr>"

definition SetLowStop :: "nat \<Rightarrow> double \<Rightarrow> nat \<Rightarrow> world \<Rightarrow> world" where
  "SetLowStop i a j w =
     w\<lparr>joints := (joints w)
        (j := (joints w j)\<lparr>GetLowStop := (GetLowStop (joints w j))(i := a)\<rparr>)\<rparr>"

definition SetParam ::
  "string \<Rightarrow> nat \<Rightarrow> double \<Rightarrow> nat \<Rightarrow> world \<Rightarrow> world" where
  "SetParam k i v j w =
     w\<lparr>joints := (joints w)
        (j := (joints w j)\<lparr>GetParam :=
           (GetParam (joints w j))(k := (GetParam (joints w j) k)(i := v))\<rparr>)\<rparr>"

text \<open>The SDF element of the plugin: which children it has and what they parse to.\<close>

record sdf_element =
  HasElement :: "string \<Rightarrow> bool"
  Get_string :: "string \<Rightarrow> string"
  Get_int :: "string \<Rightarrow> int32"
  Get_double :: "string \<Rightarrow> double"

datatype PhysicsType = ODE | BULLET | SIMBODY | DART

record Physics_msg =
  msg_type :: "PhysicsType option"
  max_step_size :: "double option"

record WorldControl =
  pause :: "bool option"

definition has_pause :: "WorldControl \<Rightarrow> bool" where
  "has_pause m = (pause m \<noteq> None)"

record Model_msg =
  name :: string

datatype callback = cb_on_gazebo_control | cb_on_gazebo_modelInfo | cb_on_gazebo_update

subsection \<open>The plugin object\<close>

text \<open>
  The fields of the class that this file reads or writes, under their names without the
  leading underscore, and two lists for what the plugin sends out: the log lines and the
  messages published, each with its topic.
\<close>

record plugin =
  parent_world :: "world option"
  sdf :: "sdf_element option"
  modelName :: string
  nbMotorSpeed :: int32
  isSimPaused :: bool
  timeMsgAlreadyDisplayed :: bool
  fdm_timestamp :: double
  controlSub :: "(string \<times> callback) option"
  modelInfoSub :: "(string \<times> callback) option"
  updateConnection :: "callback option"
  rover_model :: "model option"
  node :: "string option"
  wheelRadius :: double
  flWheelRadius :: double
  frWheelRadius :: double
  blWheelRadius :: double
  brWheelRadius :: double
  steeredWheelForce :: double
  frontTorque :: double
  backTorque :: double
  tireAngleRange :: double
  maxSpeed :: double
  maxSteer :: double
  aeroLoad :: double
  flWheelJoint :: "nat option"
  frWheelJoint :: "nat option"
  blWheelJoint :: "nat option"
  brWheelJoint :: "nat option"
  frWheelSteeringJoint :: "nat option"
  flWheelSteeringJoint :: "nat option"
  ros_log :: "log_entry list"
  published :: "(string \<times> Physics_msg) list"

definition log_info :: "log_entry \<Rightarrow> plugin \<Rightarrow> plugin" where
  "log_info e s = s\<lparr>ros_log := ros_log s @ [e]\<rparr>"

text \<open>What follows a call that may fail runs only if it did not.\<close>

definition and_then ::
  "error + 'a \<Rightarrow> ('a \<Rightarrow> error + 'b) \<Rightarrow> error + 'b" where
  "and_then r f = (case r of Inl e \<Rightarrow> Inl e | Inr x \<Rightarrow> f x)"

subsection \<open>Initialization\<close>

text \<open>
  Modelled from the spec: the macro \<^verbatim>\<open>STEP_SIZE_FOR_ARDUPILOT\<close> is defined in the
  header \<^verbatim>\<open>ardupilot_sitl_gazebo_plugin.h\<close>, which is not among the sources. The spec
  gives the maximum physics step size as 0.0025 s, and the comment above its use says
  2.5 ms for 400 Hz.
\<close>

definition STEP_SIZE_FOR_ARDUPILOT :: double where
  "STEP_SIZE_FOR_ARDUPILOT = 0.0025"

definition init_gazebo_side ::
  "world option \<Rightarrow> sdf_element option \<Rightarrow> plugin \<Rightarrow> error + (bool \<times> plugin)" where
  "init_gazebo_side world_ptr sdf_ptr s =
     (let s1 = s\<lparr>parent_world := world_ptr, sdf := sdf_ptr\<rparr> in
      case sdf s1 of None \<Rightarrow> Inl NullPointer | Some cfg \<Rightarrow>
      let s2 = (if HasElement cfg ''UAV_MODEL''
                then s1\<lparr>modelName := Get_string cfg ''UAV_MODEL''\<rparr> else s1);
          s3 = (if HasElement cfg ''NB_SERVOS_MOTOR_SPEED''
                then s2\<lparr>nbMotorSpeed := Get_int cfg ''NB_SERVOS_MOTOR_SPEED''\<rparr> else s2);
          s4 = log_info (ROS_INFO_s ''Model name:      %s'' (modelName s3)) s3;
          s5 = log_info (ROS_INFO_d ''Nb motor servos: %d'' (nbMotorSpeed s4)) s4 in
      (case parent_world s5 of None \<Rightarrow> Inl NullPointer | Some w \<Rightarrow>
      let s6 = s5\<lparr>parent_world := Some (SetPaused True w)\<rparr>;
          physicsMsg = \<lparr>msg_type = Some ODE, max_step_size = Some STEP_SIZE_FOR_ARDUPILOT\<rparr>;
          s7 = s6\<lparr>published := published s6 @ [(''~/physics'', physicsMsg)]\<rparr>;
          s8 = s7\<lparr>controlSub := Some (''~/world_control'', cb_on_gazebo_control)\<rparr>;
          s9 = s8\<lparr>modelInfoSub := Some (''~/model/info'', cb_on_gazebo_modelInfo)\<rparr>;
          s10 = s9\<lparr>updateConnection := Some cb_on_gazebo_update\<rparr>
      in Inr (True, s10)))"

subsection \<open>The radius of a collision shape\<close>

definition get_collision_radius :: "collision option \<Rightarrow> double" where
  "get_collision_radius coll =
     (case coll of None \<Rightarrow> 0 | Some c \<Rightarrow>
      (case GetShape c of None \<Rightarrow> 0 | Some sh \<Rightarrow>
         if HasType sh CYLINDER_SHAPE then GetRadius sh
         else if HasType sh SPHERE_SHAPE then GetRadius sh
         else 0))"

subsection \<open>Stepping, the update callback and the control callback\<close>

definition step_gazebo_sim :: "plugin \<Rightarrow> error + plugin" where
  "step_gazebo_sim s =
     (case parent_world s of None \<Rightarrow> Inl NullPointer
      | Some w \<Rightarrow> Inr (s\<lparr>parent_world := Some (Step 1 w)\<rparr>))"

text \<open>
  \<^verbatim>\<open>gz_time_now.sec + gz_time_now.nsec * 1e-9\<close>: the two 32-bit integers convert to
  doubles exactly, the literal is the double nearest to \<^verbatim>\<open>10^-9\<close>, and the product and
  the sum are each rounded.
\<close>

definition seconds :: "Time \<Rightarrow> double" where
  "seconds t =
     round_double (real_of_int (sint (sec t)) +
       round_double (real_of_int (sint (nsec t)) * round_double (1 / 10 ^ 9)))"

definition on_gazebo_update :: "plugin \<Rightarrow> error + plugin" where
  "on_gazebo_update s =
     (case parent_world s of None \<Rightarrow> Inl NullPointer | Some w \<Rightarrow>
      let gz_time_now = GetSimTime w;
          s1 = s\<lparr>fdm_timestamp := seconds gz_time_now\<rparr> in
      if \<not> timeMsgAlreadyDisplayed s1
      then Inr ((log_info (PLUGIN_INFO_f ''Simulation step size is = %f'' (GetMaxStepSize w)) s1)
                  \<lparr>timeMsgAlreadyDisplayed := True\<rparr>)
      else Inr s1)"

definition on_gazebo_control :: "WorldControl \<Rightarrow> plugin \<Rightarrow> error + plugin" where
  "on_gazebo_control msg s =
     (if has_pause msg then
        let s1 = s\<lparr>isSimPaused := \<not> isSimPaused s\<rparr> in
        if isSimPaused s1 then
          (case parent_world s1 of None \<Rightarrow> Inl NullPointer | Some w \<Rightarrow>
             Inr (log_info (PLUGIN_INFO ''Simulation is now paused'')
                    (s1\<lparr>parent_world := Some (SetPaused True w)\<rparr>)))
        else Inr (log_info (PLUGIN_INFO ''Resuming simulation'') s1)
      else Inr s)"

subsection \<open>Resolving the rover\<close>

definition reset_rover :: "plugin \<Rightarrow> plugin" where
  "reset_rover s =
     s\<lparr>wheelRadius := 0.1, flWheelRadius := 0.1, frWheelRadius := 0.1,
       blWheelRadius := 0.1, brWheelRadius := 0.1, steeredWheelForce := 5000,
       frontTorque := 0, backTorque := 0, tireAngleRange := 0,
       maxSpeed := 0, maxSteer := 0, aeroLoad := 0\<rparr>"

definition find_joints :: "model \<Rightarrow> plugin \<Rightarrow> error + plugin" where
  "find_joints m s0 =
     (let s1 = log_info (ROS_INFO ''Searching joints...'') s0;
          s2 = s1\<lparr>flWheelJoint := GetJoint m ''front_left_wheel_joint''\<rparr> in
      if flWheelJoint s2 = None
      then Inl (GzThrow (''could not find front left wheel joint'' @ [CHR 0x0A])) else
      let s3 = log_info (ROS_INFO ''Front left joint found'') s2;
          s4 = s3\<lparr>frWheelJoint := GetJoint m ''front_right_wheel_joint''\<rparr> in
      if frWheelJoint s4 = None
      then Inl (GzThrow (''could not find front right wheel joint'' @ [CHR 0x0A])) else
      let s5 = s4\<lparr>blWheelJoint := GetJoint m ''rear_left_wheel_joint''\<rparr> in
      if blWheelJoint s5 = None
      then Inl (GzThrow (''could not find back left wheel joint'' @ [CHR 0x0A])) else
      let s6 = s5\<lparr>brWheelJoint := GetJoint m ''rear_right_wheel_joint''\<rparr> in
      if brWheelJoint s6 = None
      then Inl (GzThrow (''could not find back right wheel joint'' @ [CHR 0x0A])) else
      let s7 = s6\<lparr>frWheelSteeringJoint := GetJoint m ''front_left_steering_joint''\<rparr> in
      if frWheelSteeringJoint s7 = None
      then Inl (GzThrow (''could not find front right steering joint'' @ [CHR 0x0A])) else
      let s8 = s7\<lparr>flWheelSteeringJoint := GetJoint m ''front_right_steering_joint''\<rparr> in
      if flWheelSteeringJoint s8 = None
      then Inl (GzThrow (''could not find front left steering joint'' @ [CHR 0x0A])) else
      Inr s8)"

definition read_vehicle_params :: "plugin \<Rightarrow> error + plugin" where
  "read_vehicle_params s =
     (case sdf s of None \<Rightarrow> Inl NullPointer | Some cfg \<Rightarrow>
      let s1 = (if HasElement cfg ''front_torque''
                then s\<lparr>frontTorque := Get_double cfg ''front_torque''\<rparr>
                else s\<lparr>frontTorque := 0\<rparr>);
          s2 = (if HasElement cfg ''back_torque''
                then s1\<lparr>backTorque := Get_double cfg ''back_torque''\<rparr>
                else s1\<lparr>backTorque := 2000\<rparr>);
          s3 = (if HasElement cfg ''max_speed''
                then s2\<lparr>maxSpeed := Get_double cfg ''max_speed''\<rparr>
                else s2\<lparr>maxSpeed := 10\<rparr>);
          s4 = (if HasElement cfg ''max_steer''
                then s3\<lparr>maxSteer := Get_double cfg ''max_steer''\<rparr>
                else s3\<lparr>maxSteer := 0.6\<rparr>);
          s5 = (if HasElement cfg ''aero_load''
                then s4\<lparr>aeroLoad := Get_double cfg ''aero_load''\<rparr>
                else s4\<lparr>aeroLoad := 0.1\<rparr>)
      in Inr s5)"

text \<open>The sixteen setter calls on the four wheel joints, in the order of the source.\<close>

definition brake_joints ::
  "nat \<Rightarrow> nat \<Rightarrow> nat \<Rightarrow> nat \<Rightarrow> world \<Rightarrow> world" where
  "brake_joints fl fr bl br w =
     fold (\<lambda>call. call)
       [SetHighStop 0 0 fl, SetHighStop 0 0 fr, SetHighStop 0 0 bl, SetHighStop 0 0 br,
        SetLowStop 0 0 fl, SetLowStop 0 0 fr, SetLowStop 0 0 bl, SetLowStop 0 0 br,
        SetParam ''stop_erp'' 0 0.0 fl, SetParam ''stop_erp'' 0 0.0 fr,
        SetParam ''stop_erp'' 0 0.0 bl, SetParam ''stop_erp'' 0 0.0 br,
        SetParam ''stop_cfm'' 0 10.0 fl, SetParam ''stop_cfm'' 0 10.0 fr,
        SetParam ''stop_cfm'' 0 10.0 bl, SetParam ''stop_cfm'' 0 10.0 br] w"

definition child_collision_radius ::
  "world \<Rightarrow> nat \<Rightarrow> nat \<Rightarrow> error + double" where
  "child_collision_radius w j idx =
     (case GetChild (joints w j) of None \<Rightarrow> Inl NullPointer
      | Some l \<Rightarrow> Inr (get_collision_radius (GetCollision l idx)))"

definition setup_wheels :: "plugin \<Rightarrow> error + plugin" where
  "setup_wheels s =
     (case (parent_world s, flWheelJoint s, frWheelJoint s, blWheelJoint s, brWheelJoint s) of
        (Some w, Some fl, Some fr, Some bl, Some br) \<Rightarrow>
          (let w' = brake_joints fl fr bl br w;
               s1 = s\<lparr>parent_world := Some w'\<rparr>;
               idx = 0 in
           and_then (child_collision_radius w' fl idx) (\<lambda>r1.
           and_then (child_collision_radius w' fr idx) (\<lambda>r2.
           and_then (child_collision_radius w' bl idx) (\<lambda>r3.
           and_then (child_collision_radius w' br idx) (\<lambda>r4.
             Inr (s1\<lparr>flWheelRadius := r1, frWheelRadius := r2,
                     blWheelRadius := r3, brWheelRadius := r4\<rparr>))))))
      | _ \<Rightarrow> Inl NullPointer)"

definition on_rover_model_loaded :: "plugin \<Rightarrow> error + plugin" where
  "on_rover_model_loaded s =
     (case parent_world s of None \<Rightarrow> Inl NullPointer | Some w \<Rightarrow>
      let s1 = s\<lparr>rover_model := GetModel w ''rover''\<rparr>;
          s2 = reset_rover s1;
          s3 = s2\<lparr>node := Some (GetName w)\<rparr> in
      (case rover_model s3 of None \<Rightarrow> Inl NullPointer | Some m \<Rightarrow>
        and_then (find_joints m s3) (\<lambda>s4.
        and_then (read_vehicle_params s4) setup_wheels)))"

subsection \<open>The model-info callback\<close>

definition on_gazebo_modelInfo :: "Model_msg \<Rightarrow> plugin \<Rightarrow> error + plugin" where
  "on_gazebo_modelInfo msg s =
     (let s1 = log_info (ROS_INFO_s ''NEW MODEL : name %s'' (name msg)) s in
      if name msg = ''rover''
      then on_rover_model_loaded (log_info (ROS_INFO ''There is Rover !'') s1)
      else Inr s1)"

subsection \<open>Events delivered to an initialized plugin\<close>

text \<open>
  The external driver calls \<^verbatim>\<open>step_gazebo_sim\<close>; Gazebo calls the update callback
  after a step, with its simulated clock at some reading, and the control callback when a
  world-control message arrives. A run delivers a list of such events in order and stops
  at the first error.
\<close>

datatype event = StepSim | WorldUpdateEnd Time | WorldControlMsg WorldControl

definition gazebo_clock :: "Time \<Rightarrow> plugin \<Rightarrow> plugin" where
  "gazebo_clock t s =
     s\<lparr>parent_world := map_option (\<lambda>w. w\<lparr>GetSimTime := t\<rparr>) (parent_world s)\<rparr>"

fun dispatch :: "event \<Rightarrow> plugin \<Rightarrow> error + plugin" where
  "dispatch StepSim s = step_gazebo_sim s"
| "dispatch (WorldUpdateEnd t) s = on_gazebo_update (gazebo_clock t s)"
| "dispatch (WorldControlMsg m) s = on_gazebo_control m s"

fun run :: "event list \<Rightarrow> plugin \<Rightarrow> error + plugin" where
  "run [] s = Inr s"
| "run (e # es) s = and_then (dispatch e s) (run es)"

fun carries_pause :: "event \<Rightarrow> bool" where
  "carries_pause (WorldControlMsg m) = has_pause m"
| "carries_pause e = False"

fun is_update :: "event \<Rightarrow> bool" where
  "is_update (WorldUpdateEnd t) = True"
| "is_update e = False"

subsection \<open>A test scene\<close>

text \<open>
  A world holding a rover with its six joints, each wheel a cylinder of radius 0.15, a
  configuration that names the vehicle \<^verbatim>\<open>drone1\<close> and sets only \<^verbatim>\<open>max_speed\<close>
  among the vehicle parameters, and a plugin object on which no method has run yet. The
  theorems below are instantiated on this scene.
\<close>

definition test_link :: link where
  "test_link =
     \<lparr>GetCollision =
        (\<lambda>i. if i = 0 then Some \<lparr>GetShape = Some (CylinderShape 0.15 0.08)\<rparr> else None)\<rparr>"

definition test_wheel :: joint where
  "test_wheel =
     \<lparr>GetHighStop = (\<lambda>i. 1), GetLowStop = (\<lambda>i. - 1), GetParam = (\<lambda>k i. 0.2),
      GetChild = Some test_link\<rparr>"

definition test_rover :: model where
  "test_rover =
     \<lparr>GetJoint = map_of
        [(''front_left_wheel_joint'', 0), (''front_right_wheel_joint'', 1),
         (''rear_left_wheel_joint'', 2), (''rear_right_wheel_joint'', 3),
         (''front_left_steering_joint'', 4), (''front_right_steering_joint'', 5)]\<rparr>"

definition test_world :: world where
  "test_world =
     \<lparr>GetName = ''default'', IsPaused = False, GetIterations = 0,
      GetSimTime = \<lparr>sec = 0, nsec = 0\<rparr>, GetMaxStepSize = 0.001,
      GetModel = (\<lambda>n. if n = ''rover'' then Some test_rover else None),
      joints = (\<lambda>j. test_wheel)\<rparr>"

definition test_sdf :: sdf_element where
  "test_sdf =
     \<lparr>HasElement = (\<lambda>n. n = ''UAV_MODEL'' \<or> n = ''NB_SERVOS_MOTOR_SPEED'' \<or> n = ''max_speed''),
      Get_string = (\<lambda>n. if n = ''UAV_MODEL'' then ''drone1'' else []),
      Get_int = (\<lambda>n. if n = ''NB_SERVOS_MOTOR_SPEED'' then 4 else 0),
      Get_double = (\<lambda>n. if n = ''max_speed'' then 25 else 0)\<rparr>"

definition test_plugin :: plugin where
  "test_plugin =
     \<lparr>parent_world = None, sdf = None, modelName = ''rover'', nbMotorSpeed = 0,
      isSimPaused = False, timeMsgAlreadyDisplayed = False, fdm_timestamp = 0,
      controlSub = None, modelInfoSub = None, updateConnection = None,
      rover_model = None, node = None,
      wheelRadius = 0, flWheelRadius = 0, frWheelRadius = 0, blWheelRadius = 0,
      brWheelRadius = 0, steeredWheelForce = 0, frontTorque = 0, backTorque = 0,
      tireAngleRange = 0, maxSpeed = 0, maxSteer = 0, aeroLoad = 0,
      flWheelJoint = None, frWheelJoint = None, blWheelJoint = None, brWheelJoint = None,
      frWheelSteeringJoint = None, flWheelSteeringJoint = None,
      ros_log = [], published = []\<rparr>"

text \<open>The plugin after initialization on the test scene.\<close>

definition test_ready :: plugin where
  "test_ready =
     (case init_gazebo_side (Some test_world) (Some test_sdf) test_plugin of
        Inr (ok, s) \<Rightarrow> s | Inl e \<Rightarrow> test_plugin)"

text \<open>The same, in a world whose rover lacks the joint of the given name.\<close>

definition test_rover_without :: "string \<Rightarrow> model" where
  "test_rover_without missing =
     \<lparr>GetJoint = (\<lambda>n. if n = missing then None else GetJoint test_rover n)\<rparr>"

definition test_ready_without :: "string \<Rightarrow> plugin" where
  "test_ready_without missing =
     test_ready\<lparr>parent_world := Some (test_world
       \<lparr>GetModel := (\<lambda>n. if n = ''rover'' then Some (test_rover_without missing) else None)\<rparr>)\<rparr>"

section \<open>Properties\<close>

subsection \<open>The radius of a collision shape\<close>

text \<open>
  C4. For every collision handle given to \<^verbatim>\<open>get_collision_radius\<close>: a null handle or
  a null shape gives 0; a cylinder gives its radius; a sphere gives its radius; a shape of
  any other kind gives 0. The function returns a number in every case: it has no error
  result.
\<close>

theorem get_collision_radius_cases:
  "get_collision_radius None = 0 \<and>
   (\<forall>c. GetShape c = None \<longrightarrow> get_collision_radius (Some c) = 0) \<and>
   (\<forall>c r l. GetShape c = Some (CylinderShape r l) \<longrightarrow> get_collision_radius (Some c) = r) \<and>
   (\<forall>c r. GetShape c = Some (SphereShape r) \<longrightarrow> get_collision_radius (Some c) = r) \<and>
   (\<forall>c sh. GetShape c = Some sh \<longrightarrow> \<not> HasType sh CYLINDER_SHAPE \<longrightarrow> \<not> HasType sh SPHERE_SHAPE
       \<longrightarrow> get_collision_radius (Some c) = 0)"
  by (simp add: get_collision_radius_def HasType_def)

theorem get_collision_radius_cases_witness:
  "get_collision_radius (Some \<lparr>GetShape = None\<rparr>) = 0 \<and>
   get_collision_radius (Some \<lparr>GetShape = Some (CylinderShape 0.15 0.08)\<rparr>) = 0.15 \<and>
   get_collision_radius (Some \<lparr>GetShape = Some (SphereShape 2)\<rparr>) = 2 \<and>
   \<not> HasType BoxShape CYLINDER_SHAPE \<and> \<not> HasType BoxShape SPHERE_SHAPE \<and>
   get_collision_radius (Some \<lparr>GetShape = Some BoxShape\<rparr>) = 0"
proof -
  note spec = get_collision_radius_cases
  have none: "GetShape \<lparr>GetShape = None\<rparr> = None"
    and cyl: "GetShape \<lparr>GetShape = Some (CylinderShape 0.15 0.08)\<rparr> = Some (CylinderShape 0.15 0.08)"
    and sph: "GetShape \<lparr>GetShape = Some (SphereShape 2)\<rparr> = Some (SphereShape 2)"
    and box: "GetShape \<lparr>GetShape = Some BoxShape\<rparr> = Some BoxShape"
    by simp_all
  have nc: "\<not> HasType BoxShape CYLINDER_SHAPE" and ns: "\<not> HasType BoxShape SPHERE_SHAPE"
    by (simp_all add: HasType_def)
  from spec none have "get_collision_radius (Some \<lparr>GetShape = None\<rparr>) = 0" by blast
  moreover from spec cyl
  have "get_collision_radius (Some \<lparr>GetShape = Some (CylinderShape 0.15 0.08)\<rparr>) = 0.15" by blast
  moreover from spec sph
  have "get_collision_radius (Some \<lparr>GetShape = Some (SphereShape 2)\<rparr>) = 2" by blast
  moreover from spec box nc ns
  have "get_collision_radius (Some \<lparr>GetShape = Some BoxShape\<rparr>) = 0" by blast
  ultimately show ?thesis using nc ns by blast
qed

subsection \<open>Initialization\<close>

lemma init_gazebo_side_closed:
  "init_gazebo_side (Some w) (Some cfg) s = Inr (True, s
     \<lparr>parent_world := Some (SetPaused True w), sdf := Some cfg,
      modelName :=
        (if HasElement cfg ''UAV_MODEL'' then Get_string cfg ''UAV_MODEL'' else modelName s),
      nbMotorSpeed :=
        (if HasElement cfg ''NB_SERVOS_MOTOR_SPEED'' then Get_int cfg ''NB_SERVOS_MOTOR_SPEED''
         else nbMotorSpeed s),
      ros_log := ros_log s @
        [ROS_INFO_s ''Model name:      %s''
           (if HasElement cfg ''UAV_MODEL'' then Get_string cfg ''UAV_MODEL'' else modelName s),
         ROS_INFO_d ''Nb motor servos: %d''
           (if HasElement cfg ''NB_SERVOS_MOTOR_SPEED'' then Get_int cfg ''NB_SERVOS_MOTOR_SPEED''
            else nbMotorSpeed s)],
      published := published s @
        [(''~/physics'', \<lparr>msg_type = Some ODE, max_step_size = Some STEP_SIZE_FOR_ARDUPILOT\<rparr>)],
      controlSub := Some (''~/world_control'', cb_on_gazebo_control),
      modelInfoSub := Some (''~/model/info'', cb_on_gazebo_modelInfo),
      updateConnection := Some cb_on_gazebo_update\<rparr>)"
  by (simp add: init_gazebo_side_def Let_def log_info_def)

text \<open>
  C8. Given a world handle that is not null and a configuration element, whatever fields
  it has, \<^verbatim>\<open>init_gazebo_side\<close> returns true. It publishes exactly one message, on
  \<^verbatim>\<open>~/physics\<close>, of solver type ODE and maximum step size 0.0025, and leaves the
  world paused. \<^verbatim>\<open>UAV_MODEL\<close> and \<^verbatim>\<open>NB_SERVOS_MOTOR_SPEED\<close> are taken when
  present; when absent the two fields keep their values. On no input does the function
  return false, and on a null world handle it does not return at all: the null pointer is
  dereferenced.
\<close>

theorem init_gazebo_side_returns_true:
  "(\<exists>s'. init_gazebo_side (Some w) (Some cfg) s = Inr (True, s') \<and>
      published s' = published s @
        [(''~/physics'', \<lparr>msg_type = Some ODE, max_step_size = Some 0.0025\<rparr>)] \<and>
      parent_world s' = Some (w\<lparr>IsPaused := True\<rparr>) \<and> sdf s' = Some cfg \<and>
      modelName s' =
        (if HasElement cfg ''UAV_MODEL'' then Get_string cfg ''UAV_MODEL'' else modelName s) \<and>
      nbMotorSpeed s' =
        (if HasElement cfg ''NB_SERVOS_MOTOR_SPEED'' then Get_int cfg ''NB_SERVOS_MOTOR_SPEED''
         else nbMotorSpeed s) \<and>
      controlSub s' = Some (''~/world_control'', cb_on_gazebo_control) \<and>
      modelInfoSub s' = Some (''~/model/info'', cb_on_gazebo_modelInfo) \<and>
      updateConnection s' = Some cb_on_gazebo_update) \<and>
   (\<forall>world_ptr sdf_ptr s0 s1. init_gazebo_side world_ptr sdf_ptr s0 \<noteq> Inr (False, s1)) \<and>
   init_gazebo_side None sdf_ptr s = Inl NullPointer"
proof -
  have never_false: "init_gazebo_side world_ptr sdf_ptr s0 \<noteq> Inr (False, s1)"
    for world_ptr sdf_ptr s0 s1
    by (simp add: init_gazebo_side_def Let_def split: option.splits)
  have null_world: "init_gazebo_side None sdf_ptr s = Inl NullPointer"
    by (simp add: init_gazebo_side_def Let_def log_info_def split: option.splits)
  show ?thesis
    using never_false null_world
    by (simp add: init_gazebo_side_closed SetPaused_def STEP_SIZE_FOR_ARDUPILOT_def)
qed

theorem init_gazebo_side_returns_true_witness:
  "\<exists>s'. init_gazebo_side (Some test_world) (Some test_sdf) test_plugin = Inr (True, s') \<and>
      published s' = [(''~/physics'', \<lparr>msg_type = Some ODE, max_step_size = Some 0.0025\<rparr>)] \<and>
      parent_world s' = Some (test_world\<lparr>IsPaused := True\<rparr>) \<and>
      modelName s' = ''drone1'' \<and> nbMotorSpeed s' = 4"
proof -
  have "HasElement test_sdf ''UAV_MODEL''" "HasElement test_sdf ''NB_SERVOS_MOTOR_SPEED''"
    "Get_string test_sdf ''UAV_MODEL'' = ''drone1''"
    "Get_int test_sdf ''NB_SERVOS_MOTOR_SPEED'' = 4"
    "published test_plugin = []"
    by (simp_all add: test_sdf_def test_plugin_def)
  with init_gazebo_side_returns_true [of test_world test_sdf test_plugin None]
  show ?thesis by auto
qed

lemma test_ready_init:
  "init_gazebo_side (Some test_world) (Some test_sdf) test_plugin = Inr (True, test_ready)"
  by (simp add: test_ready_def init_gazebo_side_closed)

lemma test_ready_fields:
  "parent_world test_ready = Some (test_world\<lparr>IsPaused := True\<rparr>)"
  "sdf test_ready = Some test_sdf"
  "modelName test_ready = ''drone1''"
  "nbMotorSpeed test_ready = 4"
  "flWheelJoint test_ready = None"
  "isSimPaused test_ready = False"
  "timeMsgAlreadyDisplayed test_ready = False"
  by (simp_all add: test_ready_def init_gazebo_side_closed SetPaused_def
      test_sdf_def test_plugin_def)


subsection \<open>Stepping\<close>

lemma run_append: "run (xs @ ys) s = and_then (run xs s) (run ys)"
  by (induction xs arbitrary: s) (auto simp: and_then_def split: sum.splits)

lemma step_gazebo_sim_world:
  "parent_world s = Some w \<Longrightarrow> step_gazebo_sim s = Inr (s\<lparr>parent_world := Some (Step 1 w)\<rparr>)"
  by (simp add: step_gazebo_sim_def)

lemma run_steps:
  "parent_world s = Some w \<Longrightarrow>
   \<exists>s' w'. run (replicate N StepSim) s = Inr s' \<and> parent_world s' = Some w' \<and>
     GetIterations w' = GetIterations w + N \<and> isSimPaused s' = isSimPaused s"
proof (induction N arbitrary: s w)
  case 0
  then show ?case by simp
next
  case (Suc N)
  let ?s1 = "s\<lparr>parent_world := Some (Step 1 w)\<rparr>"
  have "parent_world ?s1 = Some (Step 1 w)" by simp
  from Suc.IH [OF this] obtain s' w' where
    "run (replicate N StepSim) ?s1 = Inr s'" "parent_world s' = Some w'"
    "GetIterations w' = GetIterations (Step 1 w) + N" "isSimPaused s' = isSimPaused ?s1"
    by blast
  with Suc.prems show ?case
    by (simp add: step_gazebo_sim_world and_then_def Step_def SetPaused_def)
qed

text \<open>
  C1. On a plugin that holds its world, and for either value \<open>b\<close> of the pause flag,
  one call of \<^verbatim>\<open>step_gazebo_sim\<close> asks the world for exactly one step, which adds one
  to the world's iteration count, and \<open>N\<close> calls in a row succeed and add exactly
  \<open>N\<close>; the flag is neither read nor changed.
\<close>

theorem step_gazebo_sim_advances:
  assumes "parent_world s = Some w"
  shows "step_gazebo_sim (s\<lparr>isSimPaused := b\<rparr>)
           = Inr (s\<lparr>isSimPaused := b, parent_world := Some (Step 1 w)\<rparr>) \<and>
         GetIterations (Step 1 w) = GetIterations w + 1 \<and>
         (\<exists>s' w'. run (replicate N StepSim) (s\<lparr>isSimPaused := b\<rparr>) = Inr s' \<and>
            parent_world s' = Some w' \<and> GetIterations w' = GetIterations w + N \<and>
            isSimPaused s' = b)"
proof -
  have pw: "parent_world (s\<lparr>isSimPaused := b\<rparr>) = Some w"
    using assms by simp
  have one: "step_gazebo_sim (s\<lparr>isSimPaused := b\<rparr>)
               = Inr (s\<lparr>isSimPaused := b, parent_world := Some (Step 1 w)\<rparr>)"
    using step_gazebo_sim_world [OF pw] by simp
  have tick: "GetIterations (Step 1 w) = GetIterations w + 1"
    by (simp add: Step_def SetPaused_def)
  from run_steps [OF pw, of N] one tick show ?thesis by simp
qed

theorem step_gazebo_sim_advances_witness:
  "parent_world (test_plugin\<lparr>parent_world := Some test_world\<rparr>) = Some test_world \<and>
   (\<exists>s' w'. run (replicate 3 StepSim)
               (test_plugin\<lparr>parent_world := Some test_world, isSimPaused := True\<rparr>) = Inr s' \<and>
      parent_world s' = Some w' \<and> GetIterations w' = 3 \<and> isSimPaused s' = True)"
proof -
  have pw: "parent_world (test_plugin\<lparr>parent_world := Some test_world\<rparr>) = Some test_world"
    by simp
  have "GetIterations test_world = 0"
    by (simp add: test_world_def)
  with step_gazebo_sim_advances [OF pw, of True 3] pw show ?thesis
    by simp
qed

subsection \<open>The callbacks on a run of events\<close>

lemma on_gazebo_control_world:
  assumes "parent_world s = Some w"
  shows "\<exists>s' w'. on_gazebo_control m s = Inr s' \<and> parent_world s' = Some w' \<and>
           GetIterations w' = GetIterations w \<and> GetMaxStepSize w' = GetMaxStepSize w \<and>
           isSimPaused s' = (isSimPaused s \<noteq> has_pause m) \<and>
           timeMsgAlreadyDisplayed s' = timeMsgAlreadyDisplayed s"
  using assms by (simp add: on_gazebo_control_def log_info_def SetPaused_def Let_def)

lemma on_gazebo_update_world:
  assumes "parent_world s = Some w"
  shows "on_gazebo_update (gazebo_clock t s) =
           Inr (s\<lparr>parent_world := Some (w\<lparr>GetSimTime := t\<rparr>), fdm_timestamp := seconds t,
                  ros_log := ros_log s @ (if timeMsgAlreadyDisplayed s then []
                     else [PLUGIN_INFO_f ''Simulation step size is = %f'' (GetMaxStepSize w)]),
                  timeMsgAlreadyDisplayed := True\<rparr>)"
  using assms by (simp add: on_gazebo_update_def gazebo_clock_def log_info_def Let_def)

lemma dispatch_world:
  assumes "parent_world s = Some w"
  shows "\<exists>s' w'. dispatch e s = Inr s' \<and> parent_world s' = Some w' \<and>
           GetIterations w' = GetIterations w + (if e = StepSim then 1 else 0) \<and>
           GetMaxStepSize w' = GetMaxStepSize w \<and>
           isSimPaused s' = (isSimPaused s \<noteq> carries_pause e) \<and>
           timeMsgAlreadyDisplayed s' = (timeMsgAlreadyDisplayed s \<or> is_update e)"
proof (cases e)
  case StepSim
  with assms show ?thesis
    by (simp add: step_gazebo_sim_world Step_def SetPaused_def)
next
  case (WorldUpdateEnd t)
  with assms show ?thesis
    by (simp add: on_gazebo_update_world)
next
  case (WorldControlMsg m)
  with on_gazebo_control_world [OF assms, of m] show ?thesis
    by simp
qed

lemma run_world:
  "parent_world s = Some w \<Longrightarrow>
   \<exists>s' w'. run evs s = Inr s' \<and> parent_world s' = Some w' \<and>
     GetIterations w' = GetIterations w + count_list evs StepSim \<and>
     GetMaxStepSize w' = GetMaxStepSize w \<and>
     isSimPaused s' = (isSimPaused s \<noteq> odd (length (filter carries_pause evs))) \<and>
     timeMsgAlreadyDisplayed s' = (timeMsgAlreadyDisplayed s \<or> (\<exists>e\<in>set evs. is_update e))"
proof (induction evs arbitrary: s w)
  case Nil
  then show ?case by simp
next
  case (Cons e evs)
  from dispatch_world [OF Cons.prems, of e] obtain s1 w1 where
    d: "dispatch e s = Inr s1" and w1: "parent_world s1 = Some w1" and
    i: "GetIterations w1 = GetIterations w + (if e = StepSim then 1 else 0)" and
    m: "GetMaxStepSize w1 = GetMaxStepSize w" and
    p: "isSimPaused s1 = (isSimPaused s \<noteq> carries_pause e)" and
    f: "timeMsgAlreadyDisplayed s1 = (timeMsgAlreadyDisplayed s \<or> is_update e)"
    by blast
  from Cons.IH [OF w1] obtain s' w' where
    r: "run evs s1 = Inr s'" and w': "parent_world s' = Some w'" and
    i': "GetIterations w' = GetIterations w1 + count_list evs StepSim" and
    m': "GetMaxStepSize w' = GetMaxStepSize w1" and
    p': "isSimPaused s' = (isSimPaused s1 \<noteq> odd (length (filter carries_pause evs)))" and
    f': "timeMsgAlreadyDisplayed s' = (timeMsgAlreadyDisplayed s1 \<or> (\<exists>e\<in>set evs. is_update e))"
    by blast
  have "run (e # evs) s = Inr s'"
    using d r by (simp add: and_then_def)
  moreover have "GetIterations w' = GetIterations w + count_list (e # evs) StepSim"
    using i i' by simp
  moreover have "isSimPaused s' = (isSimPaused s \<noteq> odd (length (filter carries_pause (e # evs))))"
    using p p' by auto
  moreover have "timeMsgAlreadyDisplayed s' = (timeMsgAlreadyDisplayed s \<or> (\<exists>x\<in>set (e # evs). is_update x))"
    using f f' by auto
  ultimately show ?case using w' m m' by simp
qed

text \<open>
  C5. On a plugin that holds its world: a control message that carries a pause request
  negates \<^verbatim>\<open>_isSimPaused\<close>, whatever value the request has; a message without one
  changes nothing; from the unpaused state two requests in a row give true and then
  false; and after any run of events the world's iteration count has grown by the number
  of step calls in the run, whatever control messages came between them, while the flag
  ends negated exactly if the run carried an odd number of pause requests.
\<close>

theorem on_gazebo_control_toggles:
  assumes "parent_world s = Some w"
  shows "(has_pause m \<longrightarrow>
            (\<exists>s'. on_gazebo_control m s = Inr s' \<and> isSimPaused s' = (\<not> isSimPaused s))) \<and>
         (\<not> has_pause m \<longrightarrow> on_gazebo_control m s = Inr s) \<and>
         (\<not> isSimPaused s \<and> has_pause m1 \<and> has_pause m2 \<longrightarrow>
            (\<exists>s1 s2. on_gazebo_control m1 s = Inr s1 \<and> isSimPaused s1 \<and>
               on_gazebo_control m2 s1 = Inr s2 \<and> \<not> isSimPaused s2)) \<and>
         (\<exists>s' w'. run evs s = Inr s' \<and> parent_world s' = Some w' \<and>
            GetIterations w' = GetIterations w + count_list evs StepSim \<and>
            isSimPaused s' = (isSimPaused s \<noteq> odd (length (filter carries_pause evs))))"
proof -
  have one: "has_pause m \<longrightarrow>
      (\<exists>s'. on_gazebo_control m s = Inr s' \<and> isSimPaused s' = (\<not> isSimPaused s))"
    using on_gazebo_control_world [OF assms, of m] by auto
  have none: "\<not> has_pause m \<longrightarrow> on_gazebo_control m s = Inr s"
    by (simp add: on_gazebo_control_def)
  have two: "\<not> isSimPaused s \<and> has_pause m1 \<and> has_pause m2 \<longrightarrow>
      (\<exists>s1 s2. on_gazebo_control m1 s = Inr s1 \<and> isSimPaused s1 \<and>
         on_gazebo_control m2 s1 = Inr s2 \<and> \<not> isSimPaused s2)"
  proof
    assume h: "\<not> isSimPaused s \<and> has_pause m1 \<and> has_pause m2"
    from on_gazebo_control_world [OF assms, of m1] obtain s1 w1 where
      a: "on_gazebo_control m1 s = Inr s1" "parent_world s1 = Some w1"
         "isSimPaused s1 = (isSimPaused s \<noteq> has_pause m1)"
      by blast
    from on_gazebo_control_world [OF a(2), of m2] obtain s2 where
      b: "on_gazebo_control m2 s1 = Inr s2" "isSimPaused s2 = (isSimPaused s1 \<noteq> has_pause m2)"
      by blast
    from h a b show "\<exists>s1 s2. on_gazebo_control m1 s = Inr s1 \<and> isSimPaused s1 \<and>
         on_gazebo_control m2 s1 = Inr s2 \<and> \<not> isSimPaused s2"
      by auto
  qed
  from run_world [OF assms, of evs] one none two show ?thesis by blast
qed

theorem on_gazebo_control_toggles_witness:
  "parent_world test_ready = Some (test_world\<lparr>IsPaused := True\<rparr>) \<and>
   has_pause \<lparr>pause = Some True\<rparr> \<and> has_pause \<lparr>pause = Some False\<rparr> \<and>
   \<not> has_pause \<lparr>pause = None\<rparr> \<and> \<not> isSimPaused test_ready \<and>
   (\<exists>s1 s2. on_gazebo_control \<lparr>pause = Some True\<rparr> test_ready = Inr s1 \<and> isSimPaused s1 \<and>
      on_gazebo_control \<lparr>pause = Some True\<rparr> s1 = Inr s2 \<and> \<not> isSimPaused s2) \<and>
   on_gazebo_control \<lparr>pause = None\<rparr> test_ready = Inr test_ready \<and>
   (\<exists>s' w'. run [StepSim, WorldControlMsg \<lparr>pause = Some False\<rparr>, StepSim] test_ready = Inr s' \<and>
      parent_world s' = Some w' \<and> GetIterations w' = 2 \<and> isSimPaused s')"
proof -
  have p: "has_pause \<lparr>pause = Some True\<rparr>" "has_pause \<lparr>pause = Some False\<rparr>"
    "\<not> has_pause \<lparr>pause = None\<rparr>"
    by (simp_all add: has_pause_def)
  have i: "GetIterations (test_world\<lparr>IsPaused := True\<rparr>) = 0"
    by (simp add: test_world_def)
  from on_gazebo_control_toggles [OF test_ready_fields(1),
      of "\<lparr>pause = None\<rparr>" "\<lparr>pause = Some True\<rparr>" "\<lparr>pause = Some True\<rparr>"
         "[StepSim, WorldControlMsg \<lparr>pause = Some False\<rparr>, StepSim]"]
    p i test_ready_fields(1,6)
  show ?thesis by (simp add: numeral_2_eq_2)
qed

subsection \<open>The clock in seconds\<close>

lemma floor_log2_bounds:
  assumes "0 < x"
  shows "2 powi (floor_log2 x) \<le> x" and "x < 2 powi (floor_log2 x + 1)"
proof -
  show "2 powi (floor_log2 x) \<le> x"
  proof (cases "1 \<le> x")
    case True
    then have n: "0 < \<lfloor>x\<rfloor>" by linarith
    from bitlen_bounds [OF n] have b: "2 ^ nat (bitlen \<lfloor>x\<rfloor> - 1) \<le> \<lfloor>x\<rfloor>" by blast
    from n have "1 \<le> bitlen \<lfloor>x\<rfloor>"
      by (simp add: bitlen_alt_def)
    then have "(2::real) powi (bitlen \<lfloor>x\<rfloor> - 1) = 2 ^ nat (bitlen \<lfloor>x\<rfloor> - 1)"
      by (simp add: power_int_def)
    also have "\<dots> = of_int (2 ^ nat (bitlen \<lfloor>x\<rfloor> - 1))" by simp
    also have "\<dots> \<le> of_int \<lfloor>x\<rfloor>" using b by (simp only: of_int_le_iff)
    also have "\<dots> \<le> x" by simp
    finally show ?thesis using True by (simp add: floor_log2_def)
  next
    case False
    with assms have "1 < 1 / x" by simp
    then have n: "0 < \<lceil>1 / x\<rceil> - 1" by linarith
    let ?b = "bitlen (\<lceil>1 / x\<rceil> - 1)"
    from bitlen_bounds [OF n] have "\<lceil>1 / x\<rceil> - 1 < 2 ^ nat ?b" by blast
    then have "\<lceil>1 / x\<rceil> \<le> 2 ^ nat ?b" by simp
    then have "1 / x \<le> of_int (2 ^ nat ?b)" by (simp only: ceiling_le_iff)
    then have "1 / x \<le> 2 ^ nat ?b" by simp
    with assms have "1 / 2 ^ nat ?b \<le> x"
      by (simp add: field_simps)
    moreover have "(2::real) powi (- ?b) = 1 / 2 ^ nat ?b"
      using bitlen_nonneg [of "\<lceil>1 / x\<rceil> - 1"] by (simp add: power_int_def power_divide)
    ultimately show ?thesis using False by (simp add: floor_log2_def)
  qed
  show "x < 2 powi (floor_log2 x + 1)"
  proof (cases "1 \<le> x")
    case True
    then have n: "0 < \<lfloor>x\<rfloor>" by linarith
    from bitlen_bounds [OF n] have "\<lfloor>x\<rfloor> < 2 ^ nat (bitlen \<lfloor>x\<rfloor>)" by blast
    then have "\<lfloor>x\<rfloor> + 1 \<le> 2 ^ nat (bitlen \<lfloor>x\<rfloor>)" by simp
    then have "real_of_int (\<lfloor>x\<rfloor> + 1) \<le> real_of_int (2 ^ nat (bitlen \<lfloor>x\<rfloor>))"
      by (simp only: of_int_le_iff)
    then have "real_of_int \<lfloor>x\<rfloor> + 1 \<le> 2 ^ nat (bitlen \<lfloor>x\<rfloor>)" by simp
    moreover have "x < real_of_int \<lfloor>x\<rfloor> + 1" by linarith
    ultimately have "x < 2 ^ nat (bitlen \<lfloor>x\<rfloor>)" by linarith
    moreover have "(2::real) powi (bitlen \<lfloor>x\<rfloor>) = 2 ^ nat (bitlen \<lfloor>x\<rfloor>)"
      using bitlen_nonneg [of "\<lfloor>x\<rfloor>"] by (simp add: power_int_def)
    ultimately show ?thesis using True by (simp add: floor_log2_def)
  next
    case False
    with assms have "1 < 1 / x" by simp
    then have n: "0 < \<lceil>1 / x\<rceil> - 1" by linarith
    let ?b = "bitlen (\<lceil>1 / x\<rceil> - 1)"
    from n have b1: "1 \<le> ?b"
      by (simp add: bitlen_alt_def)
    from bitlen_bounds [OF n] have "2 ^ nat (?b - 1) \<le> \<lceil>1 / x\<rceil> - 1" by blast
    then have "real_of_int (2 ^ nat (?b - 1)) \<le> real_of_int (\<lceil>1 / x\<rceil> - 1)"
      by (simp only: of_int_le_iff)
    then have "2 ^ nat (?b - 1) \<le> real_of_int \<lceil>1 / x\<rceil> - 1" by simp
    moreover have "real_of_int \<lceil>1 / x\<rceil> - 1 < 1 / x" by linarith
    ultimately have "2 ^ nat (?b - 1) < 1 / x" by linarith
    with assms have "x < 1 / 2 ^ nat (?b - 1)"
      by (simp add: field_simps)
    moreover have "(2::real) powi (- ?b + 1) = 1 / 2 ^ nat (?b - 1)"
    proof -
      have "(2::real) powi (- ?b + 1) = 2 powi (- (?b - 1))" by simp
      also have "\<dots> = 1 / 2 powi (?b - 1)" by (rule power_int_minus_divide)
      also have "\<dots> = 1 / 2 ^ nat (?b - 1)" using b1 by (simp add: power_int_def)
      finally show ?thesis .
    qed
    ultimately show ?thesis using False by (simp add: floor_log2_def)
  qed
qed

text \<open>The number handed to the integer rounding has 53 bits before the point.\<close>

lemma round_double_significand:
  assumes "x \<noteq> 0"
  shows "2 ^ 52 \<le> \<bar>x\<bar> / 2 powi (floor_log2 \<bar>x\<bar> - 52)"
    and "\<bar>x\<bar> / 2 powi (floor_log2 \<bar>x\<bar> - 52) < 2 ^ 53"
proof -
  define q :: real where "q = 2 powi (floor_log2 \<bar>x\<bar>)"
  have q: "0 < q" by (simp add: q_def)
  from assms have "0 < \<bar>x\<bar>" by simp
  from floor_log2_bounds [OF this] have b: "q \<le> \<bar>x\<bar>" "\<bar>x\<bar> < 2 * q"
    by (simp_all add: q_def power_int_add)
  have e: "\<bar>x\<bar> / 2 powi (floor_log2 \<bar>x\<bar> - 52) = \<bar>x\<bar> / q * 2 ^ 52"
    by (simp add: q_def power_int_diff)
  define r where "r = \<bar>x\<bar> / q"
  from b q have r: "1 \<le> r" "r < 2"
    by (simp_all add: r_def field_simps)
  have "2 ^ 52 \<le> r * 2 ^ 52" "r * 2 ^ 52 < 2 ^ 53"
    using r by simp_all
  then show "2 ^ 52 \<le> \<bar>x\<bar> / 2 powi (floor_log2 \<bar>x\<bar> - 52)"
    and "\<bar>x\<bar> / 2 powi (floor_log2 \<bar>x\<bar> - 52) < 2 ^ 53"
    unfolding e r_def by blast+
qed

lemma round_ties_even_error: "\<bar>of_int (round_ties_even y) - y\<bar> \<le> 1 / 2"
  unfolding round_ties_even_def Let_def by (auto; linarith)

text \<open>Rounding to a double moves a number by at most half a unit in its last place.\<close>

lemma round_double_error: "\<bar>round_double x - x\<bar> \<le> \<bar>x\<bar> / 2 ^ 53"
proof (cases "x = 0")
  case True
  then show ?thesis by (simp add: round_double_def)
next
  case False
  define e where "e = floor_log2 \<bar>x\<bar> - 52"
  define p :: real where "p = 2 powi e"
  have p: "0 < p" by (simp add: p_def)
  have "p = 2 powi (floor_log2 \<bar>x\<bar>) / 2 ^ 52"
    by (simp add: p_def e_def power_int_diff)
  also have "\<dots> \<le> \<bar>x\<bar> / 2 ^ 52"
    using floor_log2_bounds(1) [of "\<bar>x\<bar>"] False by (simp add: divide_right_mono)
  finally have pb: "p \<le> \<bar>x\<bar> / 2 ^ 52" .
  have "round_double x - x = (of_int (round_ties_even (x / p)) - x / p) * p"
    using False p by (simp add: round_double_def Let_def e_def p_def field_simps)
  then have "\<bar>round_double x - x\<bar> = \<bar>of_int (round_ties_even (x / p)) - x / p\<bar> * p"
    using p by (simp add: abs_mult)
  also have "\<dots> \<le> 1 / 2 * p"
    using round_ties_even_error [of "x / p"] p by (intro mult_right_mono) simp_all
  also have "\<dots> \<le> 1 / 2 * (\<bar>x\<bar> / 2 ^ 52)"
    using pb by simp
  finally show ?thesis by simp
qed

lemma seconds_close:
  "\<bar>seconds t - (real_of_int (sint (sec t)) + real_of_int (sint (nsec t)) / 10 ^ 9)\<bar>
     \<le> 1 / 2 ^ 21"
proof -
  define k :: real where "k = 1 / 10 ^ 9"
  define c where "c = round_double k"
  define S :: real where "S = real_of_int (sint (sec t))"
  define N :: real where "N = real_of_int (sint (nsec t))"
  define p where "p = round_double (N * c)"
  have range: "\<bar>real_of_int (sint w)\<bar> \<le> 2 ^ 31" for w :: int32
  proof -
    have "\<bar>sint w\<bar> \<le> 2 ^ 31"
      using sint_ge [of w] sint_lt [of w] by simp
    then have "real_of_int \<bar>sint w\<bar> \<le> real_of_int (2 ^ 31)"
      by (simp only: of_int_le_iff)
    then show ?thesis by simp
  qed
  have S: "\<bar>S\<bar> \<le> 2 ^ 31" and N: "\<bar>N\<bar> \<le> 2 ^ 31"
    unfolding S_def N_def by (rule range)+
  have c: "c = 4835703278458517 / 4835703278458516698824704"
    unfolding c_def k_def by code_simp
  have cb: "\<bar>c - k\<bar> \<le> 1 / 10 ^ 25" "\<bar>c\<bar> \<le> 2 / 10 ^ 9"
    unfolding c k_def by simp_all
  have "\<bar>p - N * c\<bar> \<le> \<bar>N * c\<bar> / 2 ^ 53"
    unfolding p_def by (rule round_double_error)
  also have "\<bar>N * c\<bar> \<le> 2 ^ 31 * (2 / 10 ^ 9)"
    unfolding abs_mult using N cb(2) by (intro mult_mono) simp_all
  finally have pe: "\<bar>p - N * c\<bar> \<le> 2 ^ 31 * (2 / 10 ^ 9) / 2 ^ 53"
    by (simp add: divide_right_mono)
  have "\<bar>N * c - N * k\<bar> = \<bar>N\<bar> * \<bar>c - k\<bar>"
    by (simp flip: abs_mult add: right_diff_distrib)
  also have "\<dots> \<le> 2 ^ 31 * (1 / 10 ^ 25)"
    using N cb(1) by (intro mult_mono) simp_all
  finally have ce: "\<bar>N * c - N * k\<bar> \<le> 2 ^ 31 * (1 / 10 ^ 25)" .
  have nk: "\<bar>N * k\<bar> \<le> 2 ^ 31 * (1 / 10 ^ 9)"
    unfolding abs_mult using N by (intro mult_mono) (simp_all add: k_def)
  have "2 ^ 31 * (2 / 10 ^ 9) / 2 ^ 53 + 2 ^ 31 * (1 / 10 ^ 25) \<le> (1 / 2 ^ 40 :: real)"
    by simp
  with pe ce have pk: "\<bar>p - N * k\<bar> \<le> 1 / 2 ^ 40"
    by linarith
  have "2 ^ 31 * (1 / 10 ^ 9) + 1 / 2 ^ 40 \<le> (3 :: real)"
    by simp
  with S pk nk have pb: "\<bar>S + p\<bar> \<le> 2 ^ 31 + 3"
    by linarith
  have "\<bar>round_double (S + p) - (S + p)\<bar> \<le> \<bar>S + p\<bar> / 2 ^ 53"
    by (rule round_double_error)
  also have "\<dots> \<le> (2 ^ 31 + 3) / 2 ^ 53"
    using pb by (simp add: divide_right_mono)
  finally have "\<bar>round_double (S + p) - (S + p)\<bar> \<le> (2 ^ 31 + 3) / 2 ^ 53" .
  moreover have "(2 ^ 31 + 3) / 2 ^ 53 + 1 / 2 ^ 40 \<le> (1 / 2 ^ 21 :: real)"
    by simp
  ultimately have "\<bar>round_double (S + p) - (S + N * k)\<bar> \<le> 1 / 2 ^ 21"
    using pk by linarith
  then show ?thesis
    by (simp add: seconds_def S_def N_def p_def c_def k_def)
qed

text \<open>
  Some readings of the clock and the doubles they convert to. At 7.5 ms the double is
  \<^verbatim>\<open>0x1.eb851eb851eb9p-8\<close>, one unit in the last place above the double nearest to
  3/400. At 1 s and 500000004 ns, and at 1 s and 500000002 ns, the sum falls halfway
  between two doubles: the first is rounded down and the second up, each to the even one.
\<close>

lemma seconds_values:
  "seconds \<lparr>sec = 0, nsec = 7500000\<rparr> = 8646911284551353 / 2 ^ 60"
  "seconds \<lparr>sec = 1, nsec = 500000004\<rparr> = 3377699729535071 / 2 ^ 51"
  "seconds \<lparr>sec = 1, nsec = 500000002\<rparr> = 211106232814467 / 2 ^ 47"
  "seconds \<lparr>sec = 1000, nsec = 999999999\<rparr> = 2201222278805353 / 2 ^ 41"
  "seconds \<lparr>sec = 1, nsec = 500000000\<rparr> = 3 / 2"
  "seconds \<lparr>sec = - 1, nsec = 999999999\<rparr> = - (9007199 / 2 ^ 53)"
  "seconds \<lparr>sec = 2147483647, nsec = 999999999\<rparr> = 2147483648"
  by code_simp+

text \<open>
  C9. On a plugin that holds its world, take any run of events and one more update
  callback after it, with Gazebo's clock at \<open>t\<close>. That callback stores in the
  timestamp the double that \<^verbatim>\<open>sec + nsec * 1e-9\<close> evaluates to: the rounded sum of
  \<open>sec\<close> and the rounded product of \<open>nsec\<close> and the double nearest to
  \<^verbatim>\<open>10^-9\<close>. This is the clock in seconds to within \<^verbatim>\<open>2^-21\<close> s. It adds the
  step-size line to the log if the flag \<^verbatim>\<open>_timeMsgAlreadyDisplayed\<close> was clear when
  the run began and no update callback came earlier in the run; otherwise it adds
  nothing. So from a clear flag the first update callback emits the line and no later one
  does.
\<close>

theorem on_gazebo_update_records:
  assumes "parent_world s = Some w"
  shows "\<exists>s0 s1. run pre s = Inr s0 \<and> run (pre @ [WorldUpdateEnd t]) s = Inr s1 \<and>
           fdm_timestamp s1 =
             round_double (real_of_int (sint (sec t)) +
               round_double (real_of_int (sint (nsec t)) * round_double (1 / 10 ^ 9))) \<and>
           \<bar>fdm_timestamp s1 - (real_of_int (sint (sec t)) + real_of_int (sint (nsec t)) / 10 ^ 9)\<bar>
             \<le> 1 / 2 ^ 21 \<and>
           ros_log s1 = ros_log s0 @
             (if timeMsgAlreadyDisplayed s \<or> (\<exists>e\<in>set pre. is_update e) then []
              else [PLUGIN_INFO_f ''Simulation step size is = %f'' (GetMaxStepSize w)])"
proof -
  from run_world [OF assms, of pre] obtain s0 w0 where
    r: "run pre s = Inr s0" and w0: "parent_world s0 = Some w0" and
    m: "GetMaxStepSize w0 = GetMaxStepSize w" and
    f: "timeMsgAlreadyDisplayed s0 = (timeMsgAlreadyDisplayed s \<or> (\<exists>e\<in>set pre. is_update e))"
    by blast
  have u: "run (pre @ [WorldUpdateEnd t]) s = on_gazebo_update (gazebo_clock t s0)"
    using r by (simp add: run_append and_then_def split: sum.splits)
  have v: "seconds t = round_double (real_of_int (sint (sec t)) +
      round_double (real_of_int (sint (nsec t)) * round_double (1 / 10 ^ 9)))"
    by (simp only: seconds_def)
  from u on_gazebo_update_world [OF w0, of t] r m f seconds_close [of t] show ?thesis
    unfolding v [symmetric] by simp
qed

theorem on_gazebo_update_records_witness:
  "parent_world test_ready = Some (test_world\<lparr>IsPaused := True\<rparr>) \<and>
   (\<exists>s0 s1. run [StepSim] test_ready = Inr s0 \<and>
      run ([StepSim] @ [WorldUpdateEnd \<lparr>sec = 0, nsec = 7500000\<rparr>]) test_ready = Inr s1 \<and>
      fdm_timestamp s1 = 8646911284551353 / 2 ^ 60 \<and>
      ros_log s1 = ros_log s0 @ [PLUGIN_INFO_f ''Simulation step size is = %f'' 0.001]) \<and>
   (\<exists>s0 s1. run [WorldUpdateEnd \<lparr>sec = 0, nsec = 7500000\<rparr>, StepSim] test_ready = Inr s0 \<and>
      run ([WorldUpdateEnd \<lparr>sec = 0, nsec = 7500000\<rparr>, StepSim] @
           [WorldUpdateEnd \<lparr>sec = 1, nsec = 500000004\<rparr>]) test_ready = Inr s1 \<and>
      fdm_timestamp s1 = 3377699729535071 / 2 ^ 51 \<and> ros_log s1 = ros_log s0)"
proof -
  have t: "round_double (real_of_int (sint (sec \<lparr>sec = 0, nsec = 7500000\<rparr>)) +
      round_double (real_of_int (sint (nsec \<lparr>sec = 0, nsec = 7500000\<rparr>)) *
        round_double (1 / 10 ^ 9))) = 8646911284551353 / 2 ^ 60"
    "round_double (real_of_int (sint (sec \<lparr>sec = 1, nsec = 500000004\<rparr>)) +
      round_double (real_of_int (sint (nsec \<lparr>sec = 1, nsec = 500000004\<rparr>)) *
        round_double (1 / 10 ^ 9))) = 3377699729535071 / 2 ^ 51"
    using seconds_values(1,2) by (simp_all only: seconds_def)
  have m: "GetMaxStepSize (test_world\<lparr>IsPaused := True\<rparr>) = 0.001"
    by (simp add: test_world_def)
  from on_gazebo_update_records [OF test_ready_fields(1),
      of "[StepSim]" "\<lparr>sec = 0, nsec = 7500000\<rparr>"]
  obtain a0 a1 where a: "run [StepSim] test_ready = Inr a0"
    "run ([StepSim] @ [WorldUpdateEnd \<lparr>sec = 0, nsec = 7500000\<rparr>]) test_ready = Inr a1"
    "fdm_timestamp a1 = 8646911284551353 / 2 ^ 60"
    "ros_log a1 = ros_log a0 @ [PLUGIN_INFO_f ''Simulation step size is = %f'' 0.001]"
    unfolding t m using test_ready_fields(7) by auto
  from on_gazebo_update_records [OF test_ready_fields(1),
      of "[WorldUpdateEnd \<lparr>sec = 0, nsec = 7500000\<rparr>, StepSim]"
         "\<lparr>sec = 1, nsec = 500000004\<rparr>"]
  obtain b0 b1 where b:
    "run [WorldUpdateEnd \<lparr>sec = 0, nsec = 7500000\<rparr>, StepSim] test_ready = Inr b0"
    "run ([WorldUpdateEnd \<lparr>sec = 0, nsec = 7500000\<rparr>, StepSim] @
           [WorldUpdateEnd \<lparr>sec = 1, nsec = 500000004\<rparr>]) test_ready = Inr b1"
    "fdm_timestamp b1 = 3377699729535071 / 2 ^ 51" "ros_log b1 = ros_log b0"
    unfolding t by auto
  from a b test_ready_fields(1) show ?thesis
    by blast
qed

subsection \<open>Resolving the rover\<close>

lemma joints_SetHighStop [simp]:
  "GetHighStop (joints (SetHighStop i a j w) k) x =
     (if k = j \<and> x = i then a else GetHighStop (joints w k) x)"
  "GetLowStop (joints (SetHighStop i a j w) k) = GetLowStop (joints w k)"
  "GetParam (joints (SetHighStop i a j w) k) = GetParam (joints w k)"
  "GetChild (joints (SetHighStop i a j w) k) = GetChild (joints w k)"
  by (simp_all add: SetHighStop_def)

lemma joints_SetLowStop [simp]:
  "GetLowStop (joints (SetLowStop i a j w) k) x =
     (if k = j \<and> x = i then a else GetLowStop (joints w k) x)"
  "GetHighStop (joints (SetLowStop i a j w) k) = GetHighStop (joints w k)"
  "GetParam (joints (SetLowStop i a j w) k) = GetParam (joints w k)"
  "GetChild (joints (SetLowStop i a j w) k) = GetChild (joints w k)"
  by (simp_all add: SetLowStop_def)

lemma joints_SetParam [simp]:
  "GetParam (joints (SetParam n i a j w) k) n' x =
     (if k = j \<and> n' = n \<and> x = i then a else GetParam (joints w k) n' x)"
  "GetHighStop (joints (SetParam n i a j w) k) = GetHighStop (joints w k)"
  "GetLowStop (joints (SetParam n i a j w) k) = GetLowStop (joints w k)"
  "GetChild (joints (SetParam n i a j w) k) = GetChild (joints w k)"
  by (simp_all add: SetParam_def)

lemma brake_joints_child: "GetChild (joints (brake_joints fl fr bl br w) j) = GetChild (joints w j)"
  by (simp add: brake_joints_def)

lemma brake_joints_locked:
  assumes "j = fl \<or> j = fr \<or> j = bl \<or> j = br"
  shows "GetHighStop (joints (brake_joints fl fr bl br w) j) 0 = 0"
    and "GetLowStop (joints (brake_joints fl fr bl br w) j) 0 = 0"
    and "GetParam (joints (brake_joints fl fr bl br w) j) ''stop_erp'' 0 = 0"
    and "GetParam (joints (brake_joints fl fr bl br w) j) ''stop_cfm'' 0 = 10"
  using assms by (auto simp add: brake_joints_def)

lemma read_vehicle_params_closed:
  assumes "sdf s = Some cfg"
  shows "read_vehicle_params s = Inr (s
     \<lparr>frontTorque := (if HasElement cfg ''front_torque'' then Get_double cfg ''front_torque'' else 0),
      backTorque := (if HasElement cfg ''back_torque'' then Get_double cfg ''back_torque'' else 2000),
      maxSpeed := (if HasElement cfg ''max_speed'' then Get_double cfg ''max_speed'' else 10),
      maxSteer := (if HasElement cfg ''max_steer'' then Get_double cfg ''max_steer'' else 0.6),
      aeroLoad := (if HasElement cfg ''aero_load'' then Get_double cfg ''aero_load'' else 0.1)\<rparr>)"
  using assms by (simp add: read_vehicle_params_def Let_def)


lemma find_joints_found:
  assumes "GetJoint m ''front_left_wheel_joint'' = Some fl"
    and "GetJoint m ''front_right_wheel_joint'' = Some fr"
    and "GetJoint m ''rear_left_wheel_joint'' = Some bl"
    and "GetJoint m ''rear_right_wheel_joint'' = Some br"
    and "GetJoint m ''front_left_steering_joint'' = Some sl"
    and "GetJoint m ''front_right_steering_joint'' = Some sr"
  shows "find_joints m s = Inr (s
     \<lparr>ros_log := ros_log s @ [ROS_INFO ''Searching joints...'', ROS_INFO ''Front left joint found''],
      flWheelJoint := Some fl, frWheelJoint := Some fr, blWheelJoint := Some bl,
      brWheelJoint := Some br, frWheelSteeringJoint := Some sl, flWheelSteeringJoint := Some sr\<rparr>)"
  using assms by (simp add: find_joints_def log_info_def Let_def)

lemma find_joints_InrD:
  assumes "find_joints m s = Inr s'"
  shows "\<exists>fl fr bl br sl sr.
     GetJoint m ''front_left_wheel_joint'' = Some fl \<and>
     GetJoint m ''front_right_wheel_joint'' = Some fr \<and>
     GetJoint m ''rear_left_wheel_joint'' = Some bl \<and>
     GetJoint m ''rear_right_wheel_joint'' = Some br \<and>
     GetJoint m ''front_left_steering_joint'' = Some sl \<and>
     GetJoint m ''front_right_steering_joint'' = Some sr"
  using assms by (auto simp add: find_joints_def log_info_def Let_def split: if_splits)

lemma find_joints_missing:
  "GetJoint m ''front_left_wheel_joint'' = None \<Longrightarrow>
     find_joints m s = Inl (GzThrow (''could not find front left wheel joint'' @ [CHR 0x0A]))"
  "GetJoint m ''front_left_wheel_joint'' = Some fl \<Longrightarrow>
   GetJoint m ''front_right_wheel_joint'' = None \<Longrightarrow>
     find_joints m s = Inl (GzThrow (''could not find front right wheel joint'' @ [CHR 0x0A]))"
  "GetJoint m ''front_left_wheel_joint'' = Some fl \<Longrightarrow>
   GetJoint m ''front_right_wheel_joint'' = Some fr \<Longrightarrow>
   GetJoint m ''rear_left_wheel_joint'' = None \<Longrightarrow>
     find_joints m s = Inl (GzThrow (''could not find back left wheel joint'' @ [CHR 0x0A]))"
  "GetJoint m ''front_left_wheel_joint'' = Some fl \<Longrightarrow>
   GetJoint m ''front_right_wheel_joint'' = Some fr \<Longrightarrow>
   GetJoint m ''rear_left_wheel_joint'' = Some bl \<Longrightarrow>
   GetJoint m ''rear_right_wheel_joint'' = None \<Longrightarrow>
     find_joints m s = Inl (GzThrow (''could not find back right wheel joint'' @ [CHR 0x0A]))"
  "GetJoint m ''front_left_wheel_joint'' = Some fl \<Longrightarrow>
   GetJoint m ''front_right_wheel_joint'' = Some fr \<Longrightarrow>
   GetJoint m ''rear_left_wheel_joint'' = Some bl \<Longrightarrow>
   GetJoint m ''rear_right_wheel_joint'' = Some br \<Longrightarrow>
   GetJoint m ''front_left_steering_joint'' = None \<Longrightarrow>
     find_joints m s = Inl (GzThrow (''could not find front right steering joint'' @ [CHR 0x0A]))"
  "GetJoint m ''front_left_wheel_joint'' = Some fl \<Longrightarrow>
   GetJoint m ''front_right_wheel_joint'' = Some fr \<Longrightarrow>
   GetJoint m ''rear_left_wheel_joint'' = Some bl \<Longrightarrow>
   GetJoint m ''rear_right_wheel_joint'' = Some br \<Longrightarrow>
   GetJoint m ''front_left_steering_joint'' = Some sl \<Longrightarrow>
   GetJoint m ''front_right_steering_joint'' = None \<Longrightarrow>
     find_joints m s = Inl (GzThrow (''could not find front left steering joint'' @ [CHR 0x0A]))"
  by (simp_all add: find_joints_def log_info_def Let_def)

text \<open>The state a successful resolution ends in.\<close>

lemma on_rover_model_loaded_closed:
  assumes "parent_world s = Some w" and "GetModel w ''rover'' = Some m"
    and "GetJoint m ''front_left_wheel_joint'' = Some fl"
    and "GetJoint m ''front_right_wheel_joint'' = Some fr"
    and "GetJoint m ''rear_left_wheel_joint'' = Some bl"
    and "GetJoint m ''rear_right_wheel_joint'' = Some br"
    and "GetJoint m ''front_left_steering_joint'' = Some sl"
    and "GetJoint m ''front_right_steering_joint'' = Some sr"
    and "sdf s = Some cfg"
    and "GetChild (joints w fl) = Some l1" and "GetChild (joints w fr) = Some l2"
    and "GetChild (joints w bl) = Some l3" and "GetChild (joints w br) = Some l4"
  shows "on_rover_model_loaded s = Inr (s
     \<lparr>parent_world := Some (brake_joints fl fr bl br w),
      rover_model := Some m, node := Some (GetName w),
      wheelRadius := 0.1,
      flWheelRadius := get_collision_radius (GetCollision l1 0),
      frWheelRadius := get_collision_radius (GetCollision l2 0),
      blWheelRadius := get_collision_radius (GetCollision l3 0),
      brWheelRadius := get_collision_radius (GetCollision l4 0),
      steeredWheelForce := 5000,
      frontTorque := (if HasElement cfg ''front_torque'' then Get_double cfg ''front_torque'' else 0),
      backTorque := (if HasElement cfg ''back_torque'' then Get_double cfg ''back_torque'' else 2000),
      tireAngleRange := 0,
      maxSpeed := (if HasElement cfg ''max_speed'' then Get_double cfg ''max_speed'' else 10),
      maxSteer := (if HasElement cfg ''max_steer'' then Get_double cfg ''max_steer'' else 0.6),
      aeroLoad := (if HasElement cfg ''aero_load'' then Get_double cfg ''aero_load'' else 0.1),
      flWheelJoint := Some fl, frWheelJoint := Some fr, blWheelJoint := Some bl,
      brWheelJoint := Some br, frWheelSteeringJoint := Some sl, flWheelSteeringJoint := Some sr,
      ros_log := ros_log s @ [ROS_INFO ''Searching joints...'', ROS_INFO ''Front left joint found'']\<rparr>)"
  using assms(1,2,9-13)
  by (simp add: on_rover_model_loaded_def Let_def find_joints_found [OF assms(3-8)]
      read_vehicle_params_closed [where cfg = cfg] and_then_def setup_wheels_def
      child_collision_radius_def brake_joints_child reset_rover_def split del: if_split)


lemma reset_rover_keeps:
  "rover_model (reset_rover s) = rover_model s"
  "parent_world (reset_rover s) = parent_world s"
  "sdf (reset_rover s) = sdf s"
  by (simp_all add: reset_rover_def)

lemma on_rover_model_loaded_InrD:
  assumes ok: "on_rover_model_loaded s = Inr s'"
  shows "\<exists>w m fl fr bl br sl sr cfg l1 l2 l3 l4.
     parent_world s = Some w \<and> GetModel w ''rover'' = Some m \<and>
     GetJoint m ''front_left_wheel_joint'' = Some fl \<and>
     GetJoint m ''front_right_wheel_joint'' = Some fr \<and>
     GetJoint m ''rear_left_wheel_joint'' = Some bl \<and>
     GetJoint m ''rear_right_wheel_joint'' = Some br \<and>
     GetJoint m ''front_left_steering_joint'' = Some sl \<and>
     GetJoint m ''front_right_steering_joint'' = Some sr \<and>
     sdf s = Some cfg \<and>
     GetChild (joints w fl) = Some l1 \<and> GetChild (joints w fr) = Some l2 \<and>
     GetChild (joints w bl) = Some l3 \<and> GetChild (joints w br) = Some l4"
proof -
  obtain w where w: "parent_world s = Some w"
    using ok by (cases "parent_world s") (simp_all add: on_rover_model_loaded_def)
  obtain m where m: "GetModel w ''rover'' = Some m"
    using ok w by (cases "GetModel w ''rover''") (simp_all add: on_rover_model_loaded_def Let_def reset_rover_def)
  define s3 where "s3 = (reset_rover (s\<lparr>rover_model := GetModel w ''rover''\<rparr>))\<lparr>node := Some (GetName w)\<rparr>"
  have eq: "on_rover_model_loaded s =
      and_then (find_joints m s3) (\<lambda>s4. and_then (read_vehicle_params s4) setup_wheels)"
    using w m by (simp add: on_rover_model_loaded_def Let_def s3_def reset_rover_keeps)
  obtain s4 where f: "find_joints m s3 = Inr s4"
    and rest: "and_then (read_vehicle_params s4) setup_wheels = Inr s'"
    using ok eq by (cases "find_joints m s3") (simp_all add: and_then_def)
  from find_joints_InrD [OF f] obtain fl fr bl br sl sr where
    j: "GetJoint m ''front_left_wheel_joint'' = Some fl"
       "GetJoint m ''front_right_wheel_joint'' = Some fr"
       "GetJoint m ''rear_left_wheel_joint'' = Some bl"
       "GetJoint m ''rear_right_wheel_joint'' = Some br"
       "GetJoint m ''front_left_steering_joint'' = Some sl"
       "GetJoint m ''front_right_steering_joint'' = Some sr"
    by blast
  have s4: "sdf s4 = sdf s" "parent_world s4 = Some w"
    "flWheelJoint s4 = Some fl" "frWheelJoint s4 = Some fr"
    "blWheelJoint s4 = Some bl" "brWheelJoint s4 = Some br"
    using f w by (auto simp add: find_joints_found [OF j] s3_def reset_rover_keeps)
  obtain cfg where cfg: "sdf s = Some cfg"
    using rest s4(1) by (cases "sdf s") (simp_all add: read_vehicle_params_def and_then_def)
  have c: "sdf s4 = Some cfg"
    using s4(1) cfg by simp
  have sw: "setup_wheels (s4\<lparr>frontTorque := (if HasElement cfg ''front_torque'' then Get_double cfg ''front_torque'' else 0),
      backTorque := (if HasElement cfg ''back_torque'' then Get_double cfg ''back_torque'' else 2000),
      maxSpeed := (if HasElement cfg ''max_speed'' then Get_double cfg ''max_speed'' else 10),
      maxSteer := (if HasElement cfg ''max_steer'' then Get_double cfg ''max_steer'' else 0.6),
      aeroLoad := (if HasElement cfg ''aero_load'' then Get_double cfg ''aero_load'' else 0.1)\<rparr>) = Inr s'"
    using rest by (simp add: read_vehicle_params_closed [OF c] and_then_def)
  have ch: "\<exists>l1 l2 l3 l4. GetChild (joints w fl) = Some l1 \<and> GetChild (joints w fr) = Some l2 \<and>
     GetChild (joints w bl) = Some l3 \<and> GetChild (joints w br) = Some l4"
    using sw s4(2-6)
    by (cases "GetChild (joints w fl)"; cases "GetChild (joints w fr)";
        cases "GetChild (joints w bl)"; cases "GetChild (joints w br)")
       (simp_all add: setup_wheels_def Let_def and_then_def child_collision_radius_def
          brake_joints_child split del: if_split)
  with w m j cfg show ?thesis by blast
qed


lemma on_rover_model_loaded_throws:
  assumes "parent_world s = Some w" and "GetModel w ''rover'' = Some m"
    and "\<And>s0. find_joints m s0 = Inl e"
  shows "on_rover_model_loaded s = Inl e"
  using assms by (simp add: on_rover_model_loaded_def Let_def reset_rover_keeps and_then_def)

lemma test_rover_joints:
  "GetJoint test_rover ''front_left_wheel_joint'' = Some 0"
  "GetJoint test_rover ''front_right_wheel_joint'' = Some 1"
  "GetJoint test_rover ''rear_left_wheel_joint'' = Some 2"
  "GetJoint test_rover ''rear_right_wheel_joint'' = Some 3"
  "GetJoint test_rover ''front_left_steering_joint'' = Some 4"
  "GetJoint test_rover ''front_right_steering_joint'' = Some 5"
  by (simp_all add: test_rover_def)

lemma test_world_rover:
  "GetModel (test_world\<lparr>IsPaused := True\<rparr>) ''rover'' = Some test_rover"
  "GetChild (joints (test_world\<lparr>IsPaused := True\<rparr>) j) = Some test_link"
  "GetModel test_world ''rover'' = Some test_rover"
  "GetChild (joints test_world j) = Some test_link"
  by (simp_all add: test_world_def test_wheel_def)

lemma test_link_radius: "get_collision_radius (GetCollision test_link 0) = 0.15"
  by (simp add: test_link_def get_collision_radius_def HasType_def)

lemmas test_ready_resolved =
  on_rover_model_loaded_closed [OF _ test_world_rover(1) test_rover_joints _
    test_world_rover(2) test_world_rover(2) test_world_rover(2) test_world_rover(2)]

text \<open>
  C6. When \<^verbatim>\<open>on_rover_model_loaded\<close> succeeds on a configuration, each of the five
  vehicle parameters holds the value the configuration gives for its field if the field
  is present, and its default if not: 0 for \<^verbatim>\<open>front_torque\<close>, 2000 for
  \<^verbatim>\<open>back_torque\<close>, 10 for \<^verbatim>\<open>max_speed\<close>, 0.6 for \<^verbatim>\<open>max_steer\<close> and 0.1
  for \<^verbatim>\<open>aero_load\<close>. Whether the resolution succeeds does not depend on which fields
  the configuration has: it then succeeds on every other configuration too, the one with
  no field at all among them.
\<close>

theorem on_rover_model_loaded_params:
  assumes "sdf s = Some cfg" and "on_rover_model_loaded s = Inr s'"
  shows "frontTorque s' =
           (if HasElement cfg ''front_torque'' then Get_double cfg ''front_torque'' else 0) \<and>
         backTorque s' =
           (if HasElement cfg ''back_torque'' then Get_double cfg ''back_torque'' else 2000) \<and>
         maxSpeed s' =
           (if HasElement cfg ''max_speed'' then Get_double cfg ''max_speed'' else 10) \<and>
         maxSteer s' =
           (if HasElement cfg ''max_steer'' then Get_double cfg ''max_steer'' else 0.6) \<and>
         aeroLoad s' =
           (if HasElement cfg ''aero_load'' then Get_double cfg ''aero_load'' else 0.1) \<and>
         (\<forall>cfg'. \<exists>s''. on_rover_model_loaded (s\<lparr>sdf := Some cfg'\<rparr>) = Inr s'')"
proof -
  from on_rover_model_loaded_InrD [OF assms(2)] assms(1)
  obtain w m fl fr bl br sl sr l1 l2 l3 l4 where
    w: "parent_world s = Some w" and m: "GetModel w ''rover'' = Some m" and
    j: "GetJoint m ''front_left_wheel_joint'' = Some fl"
       "GetJoint m ''front_right_wheel_joint'' = Some fr"
       "GetJoint m ''rear_left_wheel_joint'' = Some bl"
       "GetJoint m ''rear_right_wheel_joint'' = Some br"
       "GetJoint m ''front_left_steering_joint'' = Some sl"
       "GetJoint m ''front_right_steering_joint'' = Some sr" and
    c: "GetChild (joints w fl) = Some l1" "GetChild (joints w fr) = Some l2"
       "GetChild (joints w bl) = Some l3" "GetChild (joints w br) = Some l4"
    by auto
  note closed = on_rover_model_loaded_closed [OF _ m j _ c]
  have "\<exists>s''. on_rover_model_loaded (s\<lparr>sdf := Some cfg'\<rparr>) = Inr s''" for cfg'
    using w by (simp add: closed [where cfg = cfg'])
  moreover from assms(2) have "s' = projr (on_rover_model_loaded s)"
    by simp
  ultimately show ?thesis
    by (simp add: closed [OF w assms(1)] split del: if_split)
qed

theorem on_rover_model_loaded_params_witness:
  "sdf test_ready = Some test_sdf \<and>
   (\<exists>s'. on_rover_model_loaded test_ready = Inr s' \<and>
      frontTorque s' = 0 \<and> backTorque s' = 2000 \<and> maxSpeed s' = 25 \<and>
      maxSteer s' = 0.6 \<and> aeroLoad s' = 0.1)"
proof -
  obtain s' where ok: "on_rover_model_loaded test_ready = Inr s'"
    using test_ready_resolved [OF test_ready_fields(1,2)] by blast
  have "\<not> HasElement test_sdf ''front_torque''" "\<not> HasElement test_sdf ''back_torque''"
    "HasElement test_sdf ''max_speed''" "Get_double test_sdf ''max_speed'' = 25"
    "\<not> HasElement test_sdf ''max_steer''" "\<not> HasElement test_sdf ''aero_load''"
    by (simp_all add: test_sdf_def)
  with on_rover_model_loaded_params [OF test_ready_fields(2) ok] test_ready_fields(2) ok
  show ?thesis by simp
qed


text \<open>
  C7. After a successful \<^verbatim>\<open>on_rover_model_loaded\<close> the four wheel joint fields hold
  the joints the rover gives for the four wheel joint names; on each of these joints the
  high stop and the low stop at index 0 are 0, \<^verbatim>\<open>stop_erp\<close> at index 0 is 0 and
  \<^verbatim>\<open>stop_cfm\<close> at index 0 is 10.0; and each wheel radius is what
  \<^verbatim>\<open>get_collision_radius\<close> returns on the collision at index 0 of the joint's child
  link.
\<close>

theorem on_rover_model_loaded_wheels:
  assumes "on_rover_model_loaded s = Inr s'"
  shows "\<exists>w w' m fl fr bl br.
     parent_world s = Some w \<and> GetModel w ''rover'' = Some m \<and> parent_world s' = Some w' \<and>
     GetJoint m ''front_left_wheel_joint'' = Some fl \<and> flWheelJoint s' = Some fl \<and>
     GetJoint m ''front_right_wheel_joint'' = Some fr \<and> frWheelJoint s' = Some fr \<and>
     GetJoint m ''rear_left_wheel_joint'' = Some bl \<and> blWheelJoint s' = Some bl \<and>
     GetJoint m ''rear_right_wheel_joint'' = Some br \<and> brWheelJoint s' = Some br \<and>
     (\<forall>j \<in> {fl, fr, bl, br}.
        GetHighStop (joints w' j) 0 = 0 \<and> GetLowStop (joints w' j) 0 = 0 \<and>
        GetParam (joints w' j) ''stop_erp'' 0 = 0 \<and>
        GetParam (joints w' j) ''stop_cfm'' 0 = 10.0) \<and>
     (\<exists>l. GetChild (joints w' fl) = Some l \<and>
        flWheelRadius s' = get_collision_radius (GetCollision l 0)) \<and>
     (\<exists>l. GetChild (joints w' fr) = Some l \<and>
        frWheelRadius s' = get_collision_radius (GetCollision l 0)) \<and>
     (\<exists>l. GetChild (joints w' bl) = Some l \<and>
        blWheelRadius s' = get_collision_radius (GetCollision l 0)) \<and>
     (\<exists>l. GetChild (joints w' br) = Some l \<and>
        brWheelRadius s' = get_collision_radius (GetCollision l 0))"
proof -
  from on_rover_model_loaded_InrD [OF assms]
  obtain w m fl fr bl br sl sr cfg l1 l2 l3 l4 where
    w: "parent_world s = Some w" and m: "GetModel w ''rover'' = Some m" and
    j: "GetJoint m ''front_left_wheel_joint'' = Some fl"
       "GetJoint m ''front_right_wheel_joint'' = Some fr"
       "GetJoint m ''rear_left_wheel_joint'' = Some bl"
       "GetJoint m ''rear_right_wheel_joint'' = Some br"
       "GetJoint m ''front_left_steering_joint'' = Some sl"
       "GetJoint m ''front_right_steering_joint'' = Some sr" and
    cfg: "sdf s = Some cfg" and
    c: "GetChild (joints w fl) = Some l1" "GetChild (joints w fr) = Some l2"
       "GetChild (joints w bl) = Some l3" "GetChild (joints w br) = Some l4"
    by blast
  let ?w' = "brake_joints fl fr bl br w"
  from assms have s': "s' = projr (on_rover_model_loaded s)"
    by simp
  note closed = on_rover_model_loaded_closed [OF w m j cfg c]
  have fields: "parent_world s' = Some ?w'"
    "flWheelJoint s' = Some fl" "frWheelJoint s' = Some fr"
    "blWheelJoint s' = Some bl" "brWheelJoint s' = Some br"
    "flWheelRadius s' = get_collision_radius (GetCollision l1 0)"
    "frWheelRadius s' = get_collision_radius (GetCollision l2 0)"
    "blWheelRadius s' = get_collision_radius (GetCollision l3 0)"
    "brWheelRadius s' = get_collision_radius (GetCollision l4 0)"
    by (simp_all add: s' closed split del: if_split)
  have locked: "\<forall>j \<in> {fl, fr, bl, br}.
        GetHighStop (joints ?w' j) 0 = 0 \<and> GetLowStop (joints ?w' j) 0 = 0 \<and>
        GetParam (joints ?w' j) ''stop_erp'' 0 = 0 \<and>
        GetParam (joints ?w' j) ''stop_cfm'' 0 = 10.0"
    using brake_joints_locked [of _ fl fr bl br w] by simp
  have children: "GetChild (joints ?w' fl) = Some l1" "GetChild (joints ?w' fr) = Some l2"
    "GetChild (joints ?w' bl) = Some l3" "GetChild (joints ?w' br) = Some l4"
    using c by (simp_all add: brake_joints_child)
  from w m j(1-4) fields locked children show ?thesis
    by blast
qed

theorem on_rover_model_loaded_wheels_witness:
  "\<exists>s' w'. on_rover_model_loaded test_ready = Inr s' \<and> parent_world s' = Some w' \<and>
     flWheelJoint s' = Some 0 \<and> frWheelJoint s' = Some 1 \<and>
     blWheelJoint s' = Some 2 \<and> brWheelJoint s' = Some 3 \<and>
     GetHighStop (joints w' 2) 0 = 0 \<and> GetLowStop (joints w' 2) 0 = 0 \<and>
     GetParam (joints w' 2) ''stop_erp'' 0 = 0 \<and> GetParam (joints w' 2) ''stop_cfm'' 0 = 10 \<and>
     blWheelRadius s' = 0.15"
proof -
  obtain s' where ok: "on_rover_model_loaded test_ready = Inr s'"
    using test_ready_resolved [OF test_ready_fields(1,2)] by blast
  from on_rover_model_loaded_wheels [OF ok]
  obtain w w' m fl fr bl br where
    h: "parent_world test_ready = Some w" "GetModel w ''rover'' = Some m"
       "parent_world s' = Some w'"
       "GetJoint m ''front_left_wheel_joint'' = Some fl" "flWheelJoint s' = Some fl"
       "GetJoint m ''front_right_wheel_joint'' = Some fr" "frWheelJoint s' = Some fr"
       "GetJoint m ''rear_left_wheel_joint'' = Some bl" "blWheelJoint s' = Some bl"
       "GetJoint m ''rear_right_wheel_joint'' = Some br" "brWheelJoint s' = Some br" and
    locked: "\<forall>j \<in> {fl, fr, bl, br}.
        GetHighStop (joints w' j) 0 = 0 \<and> GetLowStop (joints w' j) 0 = 0 \<and>
        GetParam (joints w' j) ''stop_erp'' 0 = 0 \<and>
        GetParam (joints w' j) ''stop_cfm'' 0 = 10.0" and
    r: "\<exists>l. GetChild (joints w' bl) = Some l \<and>
        blWheelRadius s' = get_collision_radius (GetCollision l 0)"
    by blast
  from h(1) have w: "w = test_world\<lparr>IsPaused := True\<rparr>"
    by (simp add: test_ready_fields)
  from h(2) have m: "m = test_rover"
    by (simp add: w test_world_rover)
  from h(4,6,8,10) have ids: "fl = 0" "fr = 1" "bl = 2" "br = 3"
    by (simp_all add: m test_rover_joints)
  have "parent_world s' = Some (brake_joints 0 1 2 3 (test_world\<lparr>IsPaused := True\<rparr>))"
  proof -
    from ok have "s' = projr (on_rover_model_loaded test_ready)"
      by simp
    then show ?thesis
      by (simp add: test_ready_resolved [OF test_ready_fields(1,2)] split del: if_split)
  qed
  with h(3) have "w' = brake_joints 0 1 2 3 (test_world\<lparr>IsPaused := True\<rparr>)"
    by simp
  then have "GetChild (joints w' 2) = Some test_link"
    by (simp add: brake_joints_child test_world_rover)
  with r ids have "blWheelRadius s' = 0.15"
    by (simp add: test_link_radius)
  with ok h(3,5,7,9,11) locked ids show ?thesis
    by simp
qed


lemma test_ready_without_fields:
  "parent_world (test_ready_without n) = Some (test_world
       \<lparr>GetModel := (\<lambda>k. if k = ''rover'' then Some (test_rover_without n) else None)\<rparr>)"
  "GetModel (test_world
       \<lparr>GetModel := (\<lambda>k. if k = ''rover'' then Some (test_rover_without n) else None)\<rparr>) ''rover''
     = Some (test_rover_without n)"
  by (simp_all add: test_ready_without_def)

lemma test_rover_without_joints:
  "GetJoint (test_rover_without ''front_left_steering_joint'') ''front_left_wheel_joint'' = Some 0"
  "GetJoint (test_rover_without ''front_left_steering_joint'') ''front_right_wheel_joint'' = Some 1"
  "GetJoint (test_rover_without ''front_left_steering_joint'') ''rear_left_wheel_joint'' = Some 2"
  "GetJoint (test_rover_without ''front_left_steering_joint'') ''rear_right_wheel_joint'' = Some 3"
  "GetJoint (test_rover_without ''front_left_steering_joint'') ''front_left_steering_joint'' = None"
  "GetJoint (test_rover_without ''front_left_steering_joint'') ''front_right_steering_joint'' = Some 5"
  "GetJoint (test_rover_without ''front_right_steering_joint'') ''front_left_wheel_joint'' = Some 0"
  "GetJoint (test_rover_without ''front_right_steering_joint'') ''front_right_wheel_joint'' = Some 1"
  "GetJoint (test_rover_without ''front_right_steering_joint'') ''rear_left_wheel_joint'' = Some 2"
  "GetJoint (test_rover_without ''front_right_steering_joint'') ''rear_right_wheel_joint'' = Some 3"
  "GetJoint (test_rover_without ''front_right_steering_joint'') ''front_left_steering_joint'' = Some 4"
  "GetJoint (test_rover_without ''front_right_steering_joint'') ''front_right_steering_joint'' = None"
  by (simp_all add: test_rover_without_def test_rover_def)

text \<open>
  C3, at the inputs where it fails. A rover that has every joint but
  \<^verbatim>\<open>front_left_steering_joint\<close>: the resolution throws, and the message says that the
  front right steering joint could not be found, a joint this rover has. A rover that has
  every joint but \<^verbatim>\<open>front_right_steering_joint\<close>: the message names the front left
  steering joint. For the four wheel joints the message names the joint that is missing.
\<close>

theorem missing_steering_joint_diagnostic:
  "GetJoint (test_rover_without ''front_left_steering_joint'') ''front_left_steering_joint'' = None \<and>
   GetJoint (test_rover_without ''front_left_steering_joint'') ''front_right_steering_joint'' = Some 5 \<and>
   on_rover_model_loaded (test_ready_without ''front_left_steering_joint'')
     = Inl (GzThrow (''could not find front right steering joint'' @ [CHR 0x0A])) \<and>
   GetJoint (test_rover_without ''front_right_steering_joint'') ''front_right_steering_joint'' = None \<and>
   GetJoint (test_rover_without ''front_right_steering_joint'') ''front_left_steering_joint'' = Some 4 \<and>
   on_rover_model_loaded (test_ready_without ''front_right_steering_joint'')
     = Inl (GzThrow (''could not find front left steering joint'' @ [CHR 0x0A]))"
proof -
  have "on_rover_model_loaded (test_ready_without ''front_left_steering_joint'')
     = Inl (GzThrow (''could not find front right steering joint'' @ [CHR 0x0A]))"
    by (rule on_rover_model_loaded_throws [OF test_ready_without_fields])
       (rule find_joints_missing(5) [OF test_rover_without_joints(1-5)])
  moreover have "on_rover_model_loaded (test_ready_without ''front_right_steering_joint'')
     = Inl (GzThrow (''could not find front left steering joint'' @ [CHR 0x0A]))"
    by (rule on_rover_model_loaded_throws [OF test_ready_without_fields])
       (rule find_joints_missing(6) [OF test_rover_without_joints(7-12)])
  ultimately show ?thesis
    using test_rover_without_joints(5,6,11,12) by blast
qed

text \<open>
  C10. On a rover that has its four wheel joints: after a successful resolution the field
  \<^verbatim>\<open>frWheelSteeringJoint\<close> holds the joint found under the name
  \<^verbatim>\<open>front_left_steering_joint\<close> and \<^verbatim>\<open>flWheelSteeringJoint\<close> the one found under
  \<^verbatim>\<open>front_right_steering_joint\<close>; when the lookup of \<^verbatim>\<open>front_left_steering_joint\<close>
  gives null the message thrown names the front right steering joint, and when that of
  \<^verbatim>\<open>front_right_steering_joint\<close> gives null it names the front left one.
\<close>

theorem steering_joints_crossed:
  assumes "parent_world s = Some w" and "GetModel w ''rover'' = Some m"
    and "GetJoint m ''front_left_wheel_joint'' = Some fl"
    and "GetJoint m ''front_right_wheel_joint'' = Some fr"
    and "GetJoint m ''rear_left_wheel_joint'' = Some bl"
    and "GetJoint m ''rear_right_wheel_joint'' = Some br"
  shows "(\<forall>s'. on_rover_model_loaded s = Inr s' \<longrightarrow>
            frWheelSteeringJoint s' = GetJoint m ''front_left_steering_joint'' \<and>
            flWheelSteeringJoint s' = GetJoint m ''front_right_steering_joint'') \<and>
         (GetJoint m ''front_left_steering_joint'' = None \<longrightarrow>
            on_rover_model_loaded s
              = Inl (GzThrow (''could not find front right steering joint'' @ [CHR 0x0A]))) \<and>
         (GetJoint m ''front_left_steering_joint'' \<noteq> None \<and>
          GetJoint m ''front_right_steering_joint'' = None \<longrightarrow>
            on_rover_model_loaded s
              = Inl (GzThrow (''could not find front left steering joint'' @ [CHR 0x0A])))"
proof (intro conjI allI impI)
  fix s'
  assume ok: "on_rover_model_loaded s = Inr s'"
  from on_rover_model_loaded_InrD [OF ok] assms(1,2)
  obtain fl fr bl br sl sr cfg l1 l2 l3 l4 where
    j: "GetJoint m ''front_left_wheel_joint'' = Some fl"
       "GetJoint m ''front_right_wheel_joint'' = Some fr"
       "GetJoint m ''rear_left_wheel_joint'' = Some bl"
       "GetJoint m ''rear_right_wheel_joint'' = Some br"
       "GetJoint m ''front_left_steering_joint'' = Some sl"
       "GetJoint m ''front_right_steering_joint'' = Some sr" and
    cfg: "sdf s = Some cfg" and
    c: "GetChild (joints w fl) = Some l1" "GetChild (joints w fr) = Some l2"
       "GetChild (joints w bl) = Some l3" "GetChild (joints w br) = Some l4"
    by auto
  from ok have s': "s' = projr (on_rover_model_loaded s)"
    by simp
  note closed = on_rover_model_loaded_closed [OF assms(1,2) j cfg c]
  show "frWheelSteeringJoint s' = GetJoint m ''front_left_steering_joint''"
    by (simp add: s' closed j split del: if_split)
  show "flWheelSteeringJoint s' = GetJoint m ''front_right_steering_joint''"
    by (simp add: s' closed j split del: if_split)
next
  assume "GetJoint m ''front_left_steering_joint'' = None"
  then show "on_rover_model_loaded s
      = Inl (GzThrow (''could not find front right steering joint'' @ [CHR 0x0A]))"
    by (intro on_rover_model_loaded_throws [OF assms(1,2)] find_joints_missing(5) [OF assms(3-6)])
next
  assume "GetJoint m ''front_left_steering_joint'' \<noteq> None \<and>
          GetJoint m ''front_right_steering_joint'' = None"
  then obtain sl where "GetJoint m ''front_left_steering_joint'' = Some sl"
    "GetJoint m ''front_right_steering_joint'' = None"
    by auto
  then show "on_rover_model_loaded s
      = Inl (GzThrow (''could not find front left steering joint'' @ [CHR 0x0A]))"
    by (intro on_rover_model_loaded_throws [OF assms(1,2)] find_joints_missing(6) [OF assms(3-6)])
qed

theorem steering_joints_crossed_witness:
  "GetJoint test_rover ''front_left_steering_joint'' = Some 4 \<and>
   GetJoint test_rover ''front_right_steering_joint'' = Some 5 \<and>
   (\<exists>s'. on_rover_model_loaded test_ready = Inr s' \<and>
      frWheelSteeringJoint s' = Some 4 \<and> flWheelSteeringJoint s' = Some 5) \<and>
   on_rover_model_loaded (test_ready_without ''front_left_steering_joint'')
     = Inl (GzThrow (''could not find front right steering joint'' @ [CHR 0x0A])) \<and>
   on_rover_model_loaded (test_ready_without ''front_right_steering_joint'')
     = Inl (GzThrow (''could not find front left steering joint'' @ [CHR 0x0A]))"
proof -
  obtain s' where ok: "on_rover_model_loaded test_ready = Inr s'"
    using test_ready_resolved [OF test_ready_fields(1,2)] by blast
  from steering_joints_crossed
    [OF test_ready_fields(1) test_world_rover(1) test_rover_joints(1-4)] ok
  have a: "frWheelSteeringJoint s' = Some 4 \<and> flWheelSteeringJoint s' = Some 5"
    by (simp add: test_rover_joints)
  from steering_joints_crossed
    [OF test_ready_without_fields test_rover_without_joints(1-4)]
  have b: "on_rover_model_loaded (test_ready_without ''front_left_steering_joint'')
     = Inl (GzThrow (''could not find front right steering joint'' @ [CHR 0x0A]))"
    using test_rover_without_joints(5) by blast
  from steering_joints_crossed
    [OF test_ready_without_fields test_rover_without_joints(7-10)]
  have c: "on_rover_model_loaded (test_ready_without ''front_right_steering_joint'')
     = Inl (GzThrow (''could not find front left steering joint'' @ [CHR 0x0A]))"
    using test_rover_without_joints(11,12) by simp
  from ok a b c test_rover_joints(5,6) show ?thesis
    by blast
qed

subsection \<open>The model-info callback\<close>

text \<open>
  C2, amended. Whatever target name the configuration gave (\<open>target\<close>, the value of
  \<^verbatim>\<open>_modelName\<close>), \<^verbatim>\<open>on_gazebo_modelInfo\<close> runs the resolver if and only if the
  name in the message is the fixed string \<^verbatim>\<open>rover\<close>; for any other name it adds its
  log line and changes nothing else.
\<close>

theorem on_gazebo_modelInfo_rover_only:
  "(name msg = ''rover'' \<longrightarrow>
      on_gazebo_modelInfo msg (s\<lparr>modelName := target\<rparr>) =
        on_rover_model_loaded (s\<lparr>modelName := target, ros_log := ros_log s @
          [ROS_INFO_s ''NEW MODEL : name %s'' ''rover'', ROS_INFO ''There is Rover !'']\<rparr>)) \<and>
   (name msg \<noteq> ''rover'' \<longrightarrow>
      on_gazebo_modelInfo msg (s\<lparr>modelName := target\<rparr>) =
        Inr (s\<lparr>modelName := target,
               ros_log := ros_log s @ [ROS_INFO_s ''NEW MODEL : name %s'' (name msg)]\<rparr>))"
  by (simp add: on_gazebo_modelInfo_def log_info_def Let_def)

theorem on_gazebo_modelInfo_rover_only_witness:
  "on_gazebo_modelInfo \<lparr>name = ''rover''\<rparr> (test_plugin\<lparr>modelName := ''drone1''\<rparr>) =
     on_rover_model_loaded (test_plugin\<lparr>modelName := ''drone1'', ros_log :=
       [ROS_INFO_s ''NEW MODEL : name %s'' ''rover'', ROS_INFO ''There is Rover !'']\<rparr>) \<and>
   on_gazebo_modelInfo \<lparr>name = ''drone1''\<rparr> (test_plugin\<lparr>modelName := ''drone1''\<rparr>) =
     Inr (test_plugin\<lparr>modelName := ''drone1'',
            ros_log := [ROS_INFO_s ''NEW MODEL : name %s'' ''drone1'']\<rparr>)"
proof -
  have l: "ros_log test_plugin = []"
    by (simp add: test_plugin_def)
  have n: "name \<lparr>name = ''rover''\<rparr> = ''rover''" "name \<lparr>name = ''drone1''\<rparr> \<noteq> ''rover''"
    by simp_all
  from on_gazebo_modelInfo_rover_only
      [where msg = "\<lparr>name = ''rover''\<rparr>" and s = test_plugin and target = "''drone1''"]
    on_gazebo_modelInfo_rover_only
      [where msg = "\<lparr>name = ''drone1''\<rparr>" and s = test_plugin and target = "''drone1''"] n l
  show ?thesis by simp
qed

text \<open>
  C2 as stated fails. After initialization with \<^verbatim>\<open>UAV_MODEL\<close> set to
  \<^verbatim>\<open>drone1\<close>, in a world that holds a complete rover, a message named
  \<^verbatim>\<open>drone1\<close>, the configured target, runs no resolution: only the log line is added.
  A message named \<^verbatim>\<open>rover\<close>, which is not the configured target, runs it: the front
  left wheel joint, unset before, is resolved.
\<close>

theorem on_gazebo_modelInfo_target_counterexample:
  "modelName test_ready = ''drone1'' \<and>
   on_gazebo_modelInfo \<lparr>name = ''drone1''\<rparr> test_ready
     = Inr (log_info (ROS_INFO_s ''NEW MODEL : name %s'' ''drone1'') test_ready) \<and>
   flWheelJoint test_ready = None \<and>
   map_sum id flWheelJoint (on_gazebo_modelInfo \<lparr>name = ''rover''\<rparr> test_ready) = Inr (Some 0)"
proof -
  have "on_gazebo_modelInfo \<lparr>name = ''drone1''\<rparr> test_ready
     = Inr (log_info (ROS_INFO_s ''NEW MODEL : name %s'' ''drone1'') test_ready)"
    by (simp add: on_gazebo_modelInfo_def Let_def)
  moreover have "map_sum id flWheelJoint (on_gazebo_modelInfo \<lparr>name = ''rover''\<rparr> test_ready)
     = Inr (Some 0)"
    by (simp add: on_gazebo_modelInfo_def Let_def log_info_def test_ready_fields
        test_ready_resolved [where cfg = test_sdf] split del: if_split)
  ultimately show ?thesis
    using test_ready_fields(3,5) by blast
qed

end
